theory Spec2Isabelle
  imports Complex_Main
begin

section \<open>Python values and exceptions\<close>

text \<open>
  The pipeline of \<^verbatim>\<open>rag_system.py\<close> passes Python dictionaries around and relies on
  \<^verbatim>\<open>try\<close>/\<^verbatim>\<open>except Exception\<close> for its error handling. Dictionaries that the
  code builds for its callers (results, citations, chat messages) are values of
  \<open>pyval\<close>, with a dictionary as an association list in insertion order; an exception is a
  value of \<open>exn\<close>, and a function that may raise returns \<open>exn + 'a\<close> with \<open>Inl\<close> the
  exception. The values of \<open>exn\<close> stand for the exceptions that \<^verbatim>\<open>except Exception\<close>
  catches. Strings are lists of characters; \<^verbatim>\<open>print\<close> calls are not modelled.
\<close>

datatype exn =
    KeyError
  | ValueError
  | IndexError
  | AttributeError
  | ValidationError
  | ServiceError string

datatype pyval =
    PyNone
  | PyStr string
  | PyList "pyval list"
  | PyDict "(string \<times> pyval) list"

text \<open>\<^verbatim>\<open>d[k]\<close> on a dictionary: the value, or KeyError.\<close>

fun py_lookup :: "pyval \<Rightarrow> string \<Rightarrow> pyval option" where
  "py_lookup (PyDict kvs) k = map_of kvs k"
| "py_lookup _ k = None"

definition py_subscript :: "pyval \<Rightarrow> string \<Rightarrow> exn + pyval" where
  "py_subscript d k = (case py_lookup d k of None \<Rightarrow> Inl KeyError | Some v \<Rightarrow> Inr v)"

text \<open>\<^verbatim>\<open>sep.join(parts)\<close>.\<close>

fun join :: "string \<Rightarrow> string list \<Rightarrow> string" where
  "join sep [] = []"
| "join sep [p] = p"
| "join sep (p # q # ps) = p @ sep @ join sep (q # ps)"

text \<open>
  \<^verbatim>\<open>str.isspace\<close> on the characters below 256 and \<^verbatim>\<open>str.strip()\<close>, which drops
  the whitespace at both ends.
\<close>

definition is_space :: "char \<Rightarrow> bool" where
  "is_space c =
     (let n = (of_char c :: nat)
      in (9 \<le> n \<and> n \<le> 13) \<or> (28 \<le> n \<and> n \<le> 32) \<or> n = 133 \<or> n = 160)"

definition strip :: "string \<Rightarrow> string" where
  "strip s = rev (dropWhile is_space (rev (dropWhile is_space s)))"

text \<open>\<^verbatim>\<open>s.startswith(p)\<close> and \<^verbatim>\<open>s.split(",", 1)\<close>.\<close>

definition startswith :: "string \<Rightarrow> string \<Rightarrow> bool" where
  "startswith s p = (take (length p) s = p)"

definition split_comma_1 :: "string \<Rightarrow> string list" where
  "split_comma_1 s =
     (if CHR '','' \<in> set s
      then [takeWhile (\<lambda>c. c \<noteq> CHR '','') s, tl (dropWhile (\<lambda>c. c \<noteq> CHR '','') s)]
      else [s])"

text \<open>\<^verbatim>\<open>xs[i]\<close> for a non-negative index: the element, or IndexError.\<close>

definition py_index :: "'a list \<Rightarrow> nat \<Rightarrow> exn + 'a" where
  "py_index xs i = (if i < length xs then Inr (xs ! i) else Inl IndexError)"

section \<open>The external services\<close>

text \<open>
  The module holds three clients: the OpenAI client (embeddings and chat completions), the
  Pinecone client and the tiktoken library. None of them is code of this repository, so the
  model takes them as parameters, collected in a record. Each call may raise.

  \<^item> \<open>embeddings_create input model\<close> is \<^verbatim>\<open>openai_client.embeddings.create\<close>; its
    value is the list of the embeddings of \<^verbatim>\<open>response.data\<close>.
  \<^item> \<open>index_query vector top_k\<close> is \<^verbatim>\<open>pc.Index(PINECONE_INDEX_NAME).query\<close> with
    \<^verbatim>\<open>include_metadata=True\<close>; its value is \<^verbatim>\<open>query_results.matches\<close>.
  \<^item> \<open>encoding_for_model model_name\<close> is \<^verbatim>\<open>tiktoken.encoding_for_model\<close>; the encoding
    it returns is its \<^verbatim>\<open>encode\<close> method, from a string to a list of token ids.
  \<^item> \<open>chat_create request\<close> is \<^verbatim>\<open>openai_client.chat.completions.create\<close>; its value
    is the list of \<^verbatim>\<open>choice.message.content\<close> of \<^verbatim>\<open>response.choices\<close>, where a
    content may be \<^verbatim>\<open>None\<close>.

  One request calls the embedding service, the index and the chat service at most once
  each, and tiktoken is deterministic, so a function of the arguments stands for each
  service.
\<close>

record pinecone_match =
  match_id :: string
  match_score :: real
  match_metadata :: "(string \<times> string) list option"

record chat_request =
  req_model :: string
  req_messages :: pyval
  req_temperature :: real
  req_max_tokens :: nat

type_synonym encoding = "string \<Rightarrow> exn + nat list"

record services =
  embeddings_create :: "string \<Rightarrow> string \<Rightarrow> exn + real list list"
  index_query :: "real list \<Rightarrow> nat \<Rightarrow> exn + pinecone_match list"
  encoding_for_model :: "string \<Rightarrow> exn + encoding"
  chat_create :: "chat_request \<Rightarrow> exn + string option list"

section \<open>rag\_system.py\<close>

subsection \<open>Constants\<close>

definition EMBEDDING_MODEL :: string where
  "EMBEDDING_MODEL = ''text-embedding-3-small''"

definition LLM_MODEL_VISION :: string where
  "LLM_MODEL_VISION = ''gpt-4o''"

definition LLM_MODEL_TEXT_ONLY :: string where
  "LLM_MODEL_TEXT_ONLY = ''gpt-3.5-turbo''"

definition MAX_TOKENS_FOR_LLM_VISION :: nat where
  "MAX_TOKENS_FOR_LLM_VISION = 4096"

definition RESERVED_QUERY_TOKENS :: nat where
  "RESERVED_QUERY_TOKENS = 500"

subsection \<open>get\_embedding and retrieve\_documents\<close>

text \<open>
  Both functions wrap their body in \<^verbatim>\<open>try\<close>, print the exception and raise it again,
  so every exception of the body is an exception of the function.
\<close>

definition get_embedding :: "services \<Rightarrow> string \<Rightarrow> exn + real list" where
  "get_embedding svc text =
     (case embeddings_create svc text EMBEDDING_MODEL of
        Inl e \<Rightarrow> Inl e
      | Inr data \<Rightarrow> py_index data 0)"

text \<open>
  A retrieved document is the dictionary with the keys \<^verbatim>\<open>id\<close>, \<^verbatim>\<open>score\<close>,
  \<^verbatim>\<open>text\<close>, \<^verbatim>\<open>title\<close> and \<^verbatim>\<open>url\<close>. \<^verbatim>\<open>generate_llm_response\<close> reads the last three
  with \<^verbatim>\<open>doc.get(key, default)\<close>, so each of them may be missing: \<open>None\<close>.
\<close>

record document =
  doc_id :: string
  doc_score :: real
  doc_text :: "string option"
  doc_title :: "string option"
  doc_url :: "string option"

text \<open>\<^verbatim>\<open>d.get(key, default)\<close> on the metadata of a match and on a field of a document.\<close>

definition dict_get :: "(string \<times> string) list \<Rightarrow> string \<Rightarrow> string \<Rightarrow> string" where
  "dict_get d k dflt = (case map_of d k of None \<Rightarrow> dflt | Some v \<Rightarrow> v)"

definition field_get :: "string option \<Rightarrow> string \<Rightarrow> string" where
  "field_get f dflt = (case f of None \<Rightarrow> dflt | Some v \<Rightarrow> v)"

text \<open>
  The loop over \<^verbatim>\<open>query_results.matches\<close>. \<^verbatim>\<open>match.metadata.get\<close> raises
  AttributeError when the metadata is \<^verbatim>\<open>None\<close>.
\<close>

fun matches_to_docs :: "pinecone_match list \<Rightarrow> exn + document list" where
  "matches_to_docs [] = Inr []"
| "matches_to_docs (m # ms) =
     (case match_metadata m of
        None \<Rightarrow> Inl AttributeError
      | Some md \<Rightarrow>
          (case matches_to_docs ms of
             Inl e \<Rightarrow> Inl e
           | Inr ds \<Rightarrow>
               Inr (\<lparr>doc_id = match_id m, doc_score = match_score m,
                      doc_text = Some (dict_get md ''text'' ''''),
                      doc_title = Some (dict_get md ''title'' ''No Title''),
                      doc_url = Some (dict_get md ''url'' ''#'')\<rparr> # ds)))"

definition retrieve_documents :: "services \<Rightarrow> real list \<Rightarrow> nat \<Rightarrow> exn + document list" where
  "retrieve_documents svc query_embedding top_k =
     (case index_query svc query_embedding top_k of
        Inl e \<Rightarrow> Inl e
      | Inr matches \<Rightarrow> matches_to_docs matches)"

subsection \<open>num\_tokens\_from\_string\<close>

definition num_tokens_from_string :: "services \<Rightarrow> string \<Rightarrow> string \<Rightarrow> exn + nat" where
  "num_tokens_from_string svc string model_name =
     (case encoding_for_model svc model_name of
        Inl e \<Rightarrow> Inl e
      | Inr encoding \<Rightarrow>
          (case encoding string of
             Inl e \<Rightarrow> Inl e
           | Inr tokens \<Rightarrow> Inr (length tokens)))"

subsection \<open>generate\_llm\_response\<close>

text \<open>The truth value of \<^verbatim>\<open>image_data_list\<close>: neither \<^verbatim>\<open>None\<close> nor empty.\<close>

definition truthy :: "string list option \<Rightarrow> bool" where
  "truthy image_data_list = (case image_data_list of None \<Rightarrow> False | Some l \<Rightarrow> l \<noteq> [])"

definition llm_model_to_use :: "string list option \<Rightarrow> string" where
  "llm_model_to_use image_data_list =
     (if truthy image_data_list then LLM_MODEL_VISION else LLM_MODEL_TEXT_ONLY)"

definition max_tokens_for_llm_effective :: "string list option \<Rightarrow> nat" where
  "max_tokens_for_llm_effective image_data_list =
     (if truthy image_data_list then MAX_TOKENS_FOR_LLM_VISION else MAX_TOKENS_FOR_LLM_VISION)"

definition system_prompt_template :: string where
  "system_prompt_template =
     ''You are a helpful assistant that answers questions based on the provided text context and any given images.''
     @ [CHR 0x0A] @
     ''If the answer is not available in the provided text context, politely state that you don't have enough information.''
     @ [CHR 0x0A] @
     ''If images are provided, analyze them to help answer the question.''
     @ [CHR 0x0A] @
     ''Avoid making up answers.''
     @ [CHR 0x0A, CHR 0x0A] @
     ''Context:''"

text \<open>
  The block of one document, \<^verbatim>\<open>doc_for_llm\<close>, with the three
  \<^verbatim>\<open>doc.get(key, default)\<close> of the loop body in place, and its entry in
  \<^verbatim>\<open>sources\<close>.
\<close>

definition doc_for_llm :: "document \<Rightarrow> string" where
  "doc_for_llm doc =
     [CHR 0x0A, CHR 0x0A] @ ''--- Document from '' @ field_get (doc_title doc) ''No Title''
     @ '' (Source: '' @ field_get (doc_url doc) ''#'' @ '') ---'' @ [CHR 0x0A]
     @ field_get (doc_text doc) ''''"

definition source_of :: "document \<Rightarrow> pyval" where
  "source_of doc =
     PyDict [(''title'', PyStr (field_get (doc_title doc) ''No Title'')),
             (''url'', PyStr (field_get (doc_url doc) ''#''))]"

text \<open>
  The \<^verbatim>\<open>for doc in retrieved_documents\<close> loop. Its state is \<^verbatim>\<open>context_str_parts\<close>,
  \<^verbatim>\<open>sources\<close> and \<^verbatim>\<open>current_tokens\<close>; \<^verbatim>\<open>break\<close> returns the state as it is. An
  exception of the tokenizer leaves the loop and the function.
\<close>

fun pack_loop ::
  "services \<Rightarrow> string \<Rightarrow> nat \<Rightarrow> document list \<Rightarrow> string list \<times> pyval list \<times> nat
     \<Rightarrow> exn + string list \<times> pyval list \<times> nat" where
  "pack_loop svc model_name budget [] st = Inr st"
| "pack_loop svc model_name budget (doc # docs) (context_str_parts, sources, current_tokens) =
     (case num_tokens_from_string svc (doc_for_llm doc) model_name of
        Inl e \<Rightarrow> Inl e
      | Inr doc_tokens \<Rightarrow>
          if current_tokens + doc_tokens < budget
          then pack_loop svc model_name budget docs
                 (context_str_parts @ [doc_for_llm doc], sources @ [source_of doc],
                  current_tokens + doc_tokens)
          else Inr (context_str_parts, sources, current_tokens))"

text \<open>
  Lines 115 to 134: the initial state, with \<^verbatim>\<open>current_tokens\<close> the tokens of the system
  prompt and the query plus the reserve, then the loop. The model name and the budget are
  the local variables \<^verbatim>\<open>llm_model_to_use\<close> and \<^verbatim>\<open>max_tokens_for_llm_effective\<close>.
\<close>

definition pack_context ::
  "services \<Rightarrow> string \<Rightarrow> nat \<Rightarrow> string \<Rightarrow> document list
     \<Rightarrow> exn + string list \<times> pyval list \<times> nat" where
  "pack_context svc model_name budget query retrieved_documents =
     (case num_tokens_from_string svc (system_prompt_template @ query) model_name of
        Inl e \<Rightarrow> Inl e
      | Inr n \<Rightarrow>
          pack_loop svc model_name budget retrieved_documents
            ([], [], n + RESERVED_QUERY_TOKENS))"

text \<open>Lines 138 to 161: the messages and the request to the chat-completion service.\<close>

definition image_part :: "string \<Rightarrow> pyval" where
  "image_part base64_image =
     PyDict [(''type'', PyStr ''image_url''),
             (''image_url'',
                PyDict [(''url'', PyStr (''data:image/jpeg;base64,'' @ base64_image)),
                        (''detail'', PyStr ''auto'')])]"

definition user_content :: "string \<Rightarrow> string list option \<Rightarrow> pyval list" where
  "user_content query image_data_list =
     [PyDict [(''type'', PyStr ''text''), (''text'', PyStr query)]]
     @ (case image_data_list of None \<Rightarrow> [] | Some l \<Rightarrow> map image_part l)"

definition llm_request :: "string \<Rightarrow> string \<Rightarrow> string list option \<Rightarrow> chat_request" where
  "llm_request query full_context_str image_data_list =
     \<lparr>req_model = llm_model_to_use image_data_list,
      req_messages =
        PyList [PyDict [(''role'', PyStr ''system''),
                        (''content'', PyStr (system_prompt_template @ full_context_str))],
                PyDict [(''role'', PyStr ''user''),
                        (''content'', PyList (user_content query image_data_list))]],
      req_temperature = 7 / 10,
      req_max_tokens = 1000\<rparr>"

definition llm_error_answer :: string where
  "llm_error_answer = ''I'm sorry, I encountered an error while trying to generate a response.''"

definition answer_result :: "string \<Rightarrow> pyval list \<Rightarrow> pyval" where
  "answer_result answer sources = PyDict [(''answer'', PyStr answer), (''sources'', PyList sources)]"

text \<open>
  Lines 156 to 169: the call and the reading of the response are inside \<^verbatim>\<open>try\<close>, so a
  failing call, an empty \<^verbatim>\<open>choices\<close> (IndexError) and a content that is \<^verbatim>\<open>None\<close>
  (AttributeError on \<^verbatim>\<open>strip\<close>) all give the fallback result.
\<close>

definition call_llm :: "services \<Rightarrow> chat_request \<Rightarrow> exn + string" where
  "call_llm svc request =
     (case chat_create svc request of
        Inl e \<Rightarrow> Inl e
      | Inr choices \<Rightarrow>
          (case py_index choices 0 of
             Inl e \<Rightarrow> Inl e
           | Inr content \<Rightarrow>
               (case content of
                  None \<Rightarrow> Inl AttributeError
                | Some c \<Rightarrow> Inr (strip c))))"

definition generate_llm_response ::
  "services \<Rightarrow> string \<Rightarrow> document list \<Rightarrow> string list option \<Rightarrow> exn + pyval" where
  "generate_llm_response svc query retrieved_documents image_data_list =
     (case pack_context svc (llm_model_to_use image_data_list)
             (max_tokens_for_llm_effective image_data_list) query retrieved_documents of
        Inl e \<Rightarrow> Inl e
      | Inr (context_str_parts, sources, current_tokens) \<Rightarrow>
          (let full_context_str = join [CHR 0x0A] context_str_parts
           in case call_llm svc (llm_request query full_context_str image_data_list) of
                Inr llm_answer \<Rightarrow> Inr (answer_result llm_answer sources)
              | Inl e \<Rightarrow> Inr (answer_result llm_error_answer [])))"

subsection \<open>generate\_rag\_answer\<close>

definition rag_error_answer :: string where
  "rag_error_answer = ''I'm sorry, an internal error occurred in the RAG system.''"

text \<open>The body of the \<^verbatim>\<open>try\<close>, lines 178 to 187.\<close>

definition rag_pipeline :: "services \<Rightarrow> string \<Rightarrow> string list option \<Rightarrow> exn + pyval" where
  "rag_pipeline svc user_query image_data_list =
     (case get_embedding svc user_query of
        Inl e \<Rightarrow> Inl e
      | Inr query_embedding \<Rightarrow>
          (case retrieve_documents svc query_embedding 7 of
             Inl e \<Rightarrow> Inl e
           | Inr retrieved_documents \<Rightarrow>
               generate_llm_response svc user_query retrieved_documents image_data_list))"

definition generate_rag_answer :: "services \<Rightarrow> string \<Rightarrow> string list option \<Rightarrow> pyval" where
  "generate_rag_answer svc user_query image_data_list =
     (case rag_pipeline svc user_query image_data_list of
        Inr llm_output \<Rightarrow> llm_output
      | Inl e \<Rightarrow> answer_result rag_error_answer [])"

section \<open>app.py\<close>

text \<open>
  The request and response models of the \<^verbatim>\<open>/api/\<close> endpoint. \<^verbatim>\<open>image_data\<close> is the
  optional field with the alias \<^verbatim>\<open>image\<close>.
\<close>

record query_request =
  question :: string
  image_data :: "string list option"

record source =
  title :: string
  url :: string

record rag_response =
  answer :: string
  sources :: "source list"

datatype http_exception = HTTPException nat string

text \<open>
  Lines 47 to 53: the loop that fills \<^verbatim>\<open>image_list_for_rag\<close>. The subscript
  \<^verbatim>\<open>[1]\<close> of the split raises IndexError when the string has no comma, which ends the
  loop and is caught by the handler of the endpoint.
\<close>

definition strip_data_url :: "string \<Rightarrow> exn + string" where
  "strip_data_url img_b64 =
     (if startswith img_b64 ''data:image/''
      then py_index (split_comma_1 img_b64) 1
      else Inr img_b64)"

fun strip_data_urls :: "string list \<Rightarrow> exn + string list" where
  "strip_data_urls [] = Inr []"
| "strip_data_urls (img_b64 # rest) =
     (case strip_data_url img_b64 of
        Inl e \<Rightarrow> Inl e
      | Inr img \<Rightarrow>
          (case strip_data_urls rest of
             Inl e \<Rightarrow> Inl e
           | Inr imgs \<Rightarrow> Inr (img # imgs)))"

definition image_list_for_rag :: "query_request \<Rightarrow> exn + string list" where
  "image_list_for_rag request =
     (if truthy (image_data request)
      then strip_data_urls (case image_data request of None \<Rightarrow> [] | Some l \<Rightarrow> l)
      else Inr [])"

text \<open>
  The construction of \<^verbatim>\<open>RAGResponse\<close>: the answer has to be a string and every source
  a dictionary with a string \<^verbatim>\<open>title\<close> and a string \<^verbatim>\<open>url\<close>.
\<close>

fun validate_source :: "pyval \<Rightarrow> exn + source" where
  "validate_source (PyDict kvs) =
     (case (map_of kvs ''title'', map_of kvs ''url'') of
        (Some (PyStr t), Some (PyStr u)) \<Rightarrow> Inr \<lparr>title = t, url = u\<rparr>
      | _ \<Rightarrow> Inl ValidationError)"
| "validate_source _ = Inl ValidationError"

fun validate_sources :: "pyval list \<Rightarrow> exn + source list" where
  "validate_sources [] = Inr []"
| "validate_sources (v # vs) =
     (case validate_source v of
        Inl e \<Rightarrow> Inl e
      | Inr s \<Rightarrow>
          (case validate_sources vs of
             Inl e \<Rightarrow> Inl e
           | Inr ss \<Rightarrow> Inr (s # ss)))"

definition RAGResponse :: "pyval \<Rightarrow> pyval \<Rightarrow> exn + rag_response" where
  "RAGResponse a srcs =
     (case (a, srcs) of
        (PyStr t, PyList vs) \<Rightarrow>
          (case validate_sources vs of
             Inl e \<Rightarrow> Inl e
           | Inr ss \<Rightarrow> Inr \<lparr>answer = t, sources = ss\<rparr>)
      | _ \<Rightarrow> Inl ValidationError)"

definition build_response :: "pyval \<Rightarrow> exn + rag_response" where
  "build_response rag_output =
     (case py_subscript rag_output ''answer'' of
        Inl e \<Rightarrow> Inl e
      | Inr a \<Rightarrow>
          (case py_subscript rag_output ''sources'' of
             Inl e \<Rightarrow> Inl e
           | Inr srcs \<Rightarrow> RAGResponse a srcs))"

definition http_500 :: http_exception where
  "http_500 = HTTPException 500 ''An error occurred while processing your request.''"

definition ask_question :: "services \<Rightarrow> query_request \<Rightarrow> http_exception + rag_response" where
  "ask_question svc request =
     (case image_list_for_rag request of
        Inl e \<Rightarrow> Inl http_500
      | Inr imgs \<Rightarrow>
          (case build_response (generate_rag_answer svc (question request) (Some imgs)) of
             Inl e \<Rightarrow> Inl http_500
           | Inr response \<Rightarrow> Inr response))"

section \<open>Sample services\<close>

text \<open>
  Concrete services on which the definitions can be evaluated: an encoding that makes one
  token of every character, an embedding service with one fixed vector, an index with two
  matches and a chat service with one fixed reply.
\<close>

definition char_encoding :: encoding where
  "char_encoding s = Inr (map of_char s)"

definition sample_matches :: "pinecone_match list" where
  "sample_matches =
     [\<lparr>match_id = ''m1'', match_score = 9 / 10,
       match_metadata = Some [(''text'', ''Use pandas.''), (''title'', ''Week 1''),
                              (''url'', ''https://tds.example/w1'')]\<rparr>,
      \<lparr>match_id = ''m2'', match_score = 1 / 2,
       match_metadata = Some [(''text'', ''Use numpy.'')]\<rparr>]"

definition sample_services :: services where
  "sample_services =
     \<lparr>embeddings_create = (\<lambda>text model. Inr [[1, 0, 0]]),
      index_query = (\<lambda>vector top_k. Inr (take top_k sample_matches)),
      encoding_for_model = (\<lambda>model_name. Inr char_encoding),
      chat_create = (\<lambda>request. Inr [Some '' Use pandas. ''])\<rparr>"

text \<open>
  Four retrieved documents (the second and the fourth without title and url) and two
  queries; the long query is 4000 times the word \<^verbatim>\<open> a\<close>.
\<close>

definition sample_doc1 :: document where
  "sample_doc1 =
     \<lparr>doc_id = ''m1'', doc_score = 9 / 10, doc_text = Some (replicate 1000 CHR ''x''),
      doc_title = Some ''Week 1'', doc_url = Some ''https://tds.example/w1''\<rparr>"

definition sample_doc2 :: document where
  "sample_doc2 =
     \<lparr>doc_id = ''m2'', doc_score = 1 / 2, doc_text = Some (replicate 3000 CHR ''y''),
      doc_title = None, doc_url = None\<rparr>"

definition sample_doc3 :: document where
  "sample_doc3 =
     \<lparr>doc_id = ''m3'', doc_score = 1 / 4, doc_text = Some ''short'',
      doc_title = Some ''Week 3'', doc_url = Some ''https://tds.example/w3''\<rparr>"

definition sample_doc4 :: document where
  "sample_doc4 =
     \<lparr>doc_id = ''m4'', doc_score = 1 / 8, doc_text = Some ''Use numpy.'',
      doc_title = None, doc_url = None\<rparr>"

definition sample_query :: string where
  "sample_query = ''What is OLS regression?''"

definition long_query :: string where
  "long_query = concat (replicate 4000 '' a'')"

text \<open>
  Two documents whose blocks have 1638 and 1633 characters: with the empty query they fill
  the budget of 4096 up to one token.
\<close>

definition tight_doc1 :: document where
  "tight_doc1 =
     \<lparr>doc_id = ''t1'', doc_score = 9 / 10, doc_text = Some (replicate 1600 CHR ''x''),
      doc_title = Some ''A'', doc_url = Some ''u''\<rparr>"

definition tight_doc2 :: document where
  "tight_doc2 =
     \<lparr>doc_id = ''t2'', doc_score = 1 / 2, doc_text = Some (replicate 1595 CHR ''y''),
      doc_title = Some ''B'', doc_url = Some ''v''\<rparr>"

text \<open>
  The documents that \<^verbatim>\<open>retrieve_documents\<close> builds from the sample matches, a list of
  one image, and the sample services with one service changed: an embedding service and an
  index that are down, a tiktoken that does not know the model \<^verbatim>\<open>gpt-4o\<close>, a chat
  service that times out and one that replies with an empty content.
\<close>

definition sample_retrieved :: "document list" where
  "sample_retrieved =
     [\<lparr>doc_id = ''m1'', doc_score = 9 / 10, doc_text = Some ''Use pandas.'',
       doc_title = Some ''Week 1'', doc_url = Some ''https://tds.example/w1''\<rparr>,
      \<lparr>doc_id = ''m2'', doc_score = 1 / 2, doc_text = Some ''Use numpy.'',
       doc_title = Some ''No Title'', doc_url = Some ''#''\<rparr>]"

definition sample_images :: "string list option" where
  "sample_images = Some [''aGVsbG8='']"

definition embedding_down :: services where
  "embedding_down =
     sample_services\<lparr>embeddings_create := (\<lambda>text model. Inl (ServiceError ''down''))\<rparr>"

definition index_down :: services where
  "index_down =
     sample_services\<lparr>index_query := (\<lambda>vector top_k. Inl (ServiceError ''down''))\<rparr>"

definition tiktoken_without_gpt4o :: services where
  "tiktoken_without_gpt4o =
     sample_services\<lparr>encoding_for_model :=
       (\<lambda>model_name. if model_name = ''gpt-4o'' then Inl KeyError else Inr char_encoding)\<rparr>"

definition chat_down :: services where
  "chat_down = sample_services\<lparr>chat_create := (\<lambda>request. Inl (ServiceError ''timeout''))\<rparr>"

definition chat_empty_reply :: services where
  "chat_empty_reply = sample_services\<lparr>chat_create := (\<lambda>request. Inr [Some ''''])\<rparr>"

text \<open>
  The words of the claim about the endpoint: the substring after the first comma, and the
  image that is to be forwarded for a submitted image.
\<close>

definition after_first_comma :: "string \<Rightarrow> string" where
  "after_first_comma s = tl (dropWhile (\<lambda>c. c \<noteq> CHR '','') s)"

definition forwarded_image :: "string \<Rightarrow> string" where
  "forwarded_image img_b64 =
     (if startswith img_b64 ''data:image/'' then after_first_comma img_b64 else img_b64)"

text \<open>Three submitted images, two of them data URLs, and a data URL without a comma.\<close>

definition sample_submitted :: "string list" where
  "sample_submitted = [''data:image/png;base64,aGVsbG8='', ''aGVsbG8='', ''data:image/x,y,z'']"

definition sample_malformed :: "string list" where
  "sample_malformed = [''aGVsbG8='', ''data:image/png;base64'']"

text \<open>
  A tiktoken whose \<^verbatim>\<open>encode\<close> refuses a text that contains the special token
  \<^verbatim>\<open><|endoftext|>\<close> with ValueError, as the library does with its default
  \<^verbatim>\<open>disallowed_special\<close>.
\<close>

fun has_substring :: "string \<Rightarrow> string \<Rightarrow> bool" where
  "has_substring [] p = (p = [])"
| "has_substring (c # cs) p = (startswith (c # cs) p \<or> has_substring cs p)"

definition special_token_encoding :: encoding where
  "special_token_encoding s =
     (if has_substring s ''<|endoftext|>'' then Inl ValueError else Inr (map of_char s))"

definition tiktoken_special_tokens :: services where
  "tiktoken_special_tokens =
     sample_services\<lparr>encoding_for_model := (\<lambda>model_name. Inr special_token_encoding)\<rparr>"

text \<open>A chat service that replies with the name of the model it was asked for.\<close>

definition chat_echo_model :: services where
  "chat_echo_model =
     sample_services\<lparr>chat_create := (\<lambda>request. Inr [Some (req_model request)])\<rparr>"

section \<open>Evaluation on the sample services\<close>

lemma sample_tokens: "num_tokens_from_string sample_services s m = Inr (length s)"
  by (simp add: num_tokens_from_string_def sample_services_def char_encoding_def)

lemma length_system_prompt_template: "length system_prompt_template = 324"
  by (simp add: system_prompt_template_def)

lemma length_sample_blocks:
  "length (doc_for_llm sample_doc1) = 1064"
  "length (doc_for_llm sample_doc2) = 3045"
  "length (doc_for_llm sample_doc3) = 69"
  "length (doc_for_llm sample_doc4) = 55"
  "length (doc_for_llm tight_doc1) = 1638"
  "length (doc_for_llm tight_doc2) = 1633"
  by (simp_all add: doc_for_llm_def field_get_def sample_doc1_def sample_doc2_def
      sample_doc3_def sample_doc4_def tight_doc1_def tight_doc2_def)

lemma length_long_query: "length long_query = 8000"
  by (simp add: long_query_def length_concat sum_list_replicate)

lemma budget_4096: "max_tokens_for_llm_effective image_data_list = 4096"
  by (simp add: max_tokens_for_llm_effective_def MAX_TOKENS_FOR_LLM_VISION_def)

lemmas sample_eval =
  sample_tokens length_system_prompt_template length_sample_blocks length_long_query
  budget_4096 RESERVED_QUERY_TOKENS_def sample_query_def

section \<open>The packing loop\<close>

text \<open>
  What a run of the loop that returns has done: it admitted the first \<open>k\<close> documents, in
  order, counted the tokens of each of their blocks, and either reached the end of the list
  or stopped at document \<open>k\<close>, whose block did not fit.
\<close>

lemma pack_loop_result:
  "pack_loop svc m b docs (parts, srcs, cur) = Inr (parts', srcs', cur') \<Longrightarrow>
   \<exists>k ts. k \<le> length docs
     \<and> parts' = parts @ map doc_for_llm (take k docs)
     \<and> srcs' = srcs @ map source_of (take k docs)
     \<and> map (\<lambda>d. num_tokens_from_string svc (doc_for_llm d) m) (take k docs) = map Inr ts
     \<and> cur' = cur + sum_list ts
     \<and> (0 < k \<longrightarrow> cur' < b)
     \<and> (k < length docs \<longrightarrow>
          (\<exists>t. num_tokens_from_string svc (doc_for_llm (docs ! k)) m = Inr t \<and> \<not> cur' + t < b))"
proof (induction docs arbitrary: parts srcs cur)
  case Nil
  then show ?case by simp
next
  case (Cons d docs)
  show ?case
  proof (cases "num_tokens_from_string svc (doc_for_llm d) m")
    case (Inl e)
    with Cons.prems show ?thesis by simp
  next
    case (Inr t)
    show ?thesis
    proof (cases "cur + t < b")
      case False
      with Inr Cons.prems have "parts' = parts" "srcs' = srcs" "cur' = cur" by simp_all
      with Inr False show ?thesis
        by (intro exI [of _ 0] exI [of _ "[]"]) simp
    next
      case True
      with Inr Cons.prems have
        "pack_loop svc m b docs (parts @ [doc_for_llm d], srcs @ [source_of d], cur + t)
           = Inr (parts', srcs', cur')" by simp
      from Cons.IH [OF this] obtain k ts where k:
        "k \<le> length docs"
        "parts' = (parts @ [doc_for_llm d]) @ map doc_for_llm (take k docs)"
        "srcs' = (srcs @ [source_of d]) @ map source_of (take k docs)"
        "map (\<lambda>d. num_tokens_from_string svc (doc_for_llm d) m) (take k docs) = map Inr ts"
        "cur' = cur + t + sum_list ts"
        "0 < k \<longrightarrow> cur' < b"
        "k < length docs \<longrightarrow>
          (\<exists>t. num_tokens_from_string svc (doc_for_llm (docs ! k)) m = Inr t \<and> \<not> cur' + t < b)"
        by blast
      have "cur' < b"
      proof (cases "k = 0")
        case True
        with k(4,5) \<open>cur + t < b\<close> show ?thesis by simp
      next
        case False
        with k(6) show ?thesis by simp
      qed
      with k Inr show ?thesis
        by (intro exI [of _ "Suc k"] exI [of _ "t # ts"]) simp
    qed
  qed
qed

lemma pack_context_result:
  assumes "pack_context svc m b q docs = Inr (parts, srcs, cur)"
  shows "\<exists>n k ts. num_tokens_from_string svc (system_prompt_template @ q) m = Inr n
     \<and> k \<le> length docs
     \<and> parts = map doc_for_llm (take k docs)
     \<and> srcs = map source_of (take k docs)
     \<and> map (\<lambda>d. num_tokens_from_string svc (doc_for_llm d) m) (take k docs) = map Inr ts
     \<and> cur = n + RESERVED_QUERY_TOKENS + sum_list ts
     \<and> (0 < k \<longrightarrow> cur < b)
     \<and> (k < length docs \<longrightarrow>
          (\<exists>t. num_tokens_from_string svc (doc_for_llm (docs ! k)) m = Inr t \<and> \<not> cur + t < b))"
proof (cases "num_tokens_from_string svc (system_prompt_template @ q) m")
  case (Inl e)
  with assms show ?thesis by (simp add: pack_context_def)
next
  case (Inr n)
  with assms have
    "pack_loop svc m b docs ([], [], n + RESERVED_QUERY_TOKENS) = Inr (parts, srcs, cur)"
    by (simp add: pack_context_def)
  from pack_loop_result [OF this] Inr show ?thesis by auto
qed

text \<open>
  C1 (budget respected), as amended. When the packer returns, its running total is the
  base count (the tokens of system prompt plus query, plus the reserve) plus the sum of
  the token counts of the admitted blocks, each block counted on its own; that total is
  below the budget whenever the base count is below the budget or at least one block was
  admitted.
\<close>

theorem budget_respected_per_block:
  assumes "pack_context svc m b q docs = Inr (parts, srcs, cur)"
  shows "\<exists>n ts. num_tokens_from_string svc (system_prompt_template @ q) m = Inr n
     \<and> map (\<lambda>p. num_tokens_from_string svc p m) parts = map Inr ts
     \<and> cur = n + RESERVED_QUERY_TOKENS + sum_list ts
     \<and> (n + RESERVED_QUERY_TOKENS < b \<or> parts \<noteq> []
          \<longrightarrow> n + RESERVED_QUERY_TOKENS + sum_list ts < b)"
proof -
  from pack_context_result [OF assms] obtain n k ts where r:
    "num_tokens_from_string svc (system_prompt_template @ q) m = Inr n"
    "parts = map doc_for_llm (take k docs)"
    "map (\<lambda>d. num_tokens_from_string svc (doc_for_llm d) m) (take k docs) = map Inr ts"
    "cur = n + RESERVED_QUERY_TOKENS + sum_list ts"
    "0 < k \<longrightarrow> cur < b"
    "k \<le> length docs"
    by blast
  have ts: "map (\<lambda>p. num_tokens_from_string svc p m) parts = map Inr ts"
    using r(2,3) by (simp add: comp_def)
  have "n + RESERVED_QUERY_TOKENS + sum_list ts < b"
    if "n + RESERVED_QUERY_TOKENS < b \<or> parts \<noteq> []"
  proof (cases "k = 0")
    case True
    with r(2) have "parts = []" by simp
    moreover from True r(3) have "ts = []" by simp
    ultimately show ?thesis using that by simp
  next
    case False
    with r(4,5) show ?thesis by simp
  qed
  with r(1,4) ts show ?thesis by blast
qed

theorem budget_respected_per_block_witness:
  "pack_context sample_services (llm_model_to_use None) (max_tokens_for_llm_effective None)
     sample_query [sample_doc1, sample_doc3, sample_doc2]
   = Inr ([doc_for_llm sample_doc1, doc_for_llm sample_doc3],
          [source_of sample_doc1, source_of sample_doc3], 1980)
   \<and> (\<exists>n ts. num_tokens_from_string sample_services (system_prompt_template @ sample_query)
                (llm_model_to_use None) = Inr n
        \<and> map (\<lambda>p. num_tokens_from_string sample_services p (llm_model_to_use None))
             [doc_for_llm sample_doc1, doc_for_llm sample_doc3] = map Inr ts
        \<and> 1980 = n + RESERVED_QUERY_TOKENS + sum_list ts
        \<and> (n + RESERVED_QUERY_TOKENS < max_tokens_for_llm_effective None
              \<or> [doc_for_llm sample_doc1, doc_for_llm sample_doc3] \<noteq> []
             \<longrightarrow> n + RESERVED_QUERY_TOKENS + sum_list ts < max_tokens_for_llm_effective None))
   \<and> 324 + 23 + RESERVED_QUERY_TOKENS < max_tokens_for_llm_effective None"
proof -
  have h: "pack_context sample_services (llm_model_to_use None)
      (max_tokens_for_llm_effective None) sample_query [sample_doc1, sample_doc3, sample_doc2]
    = Inr ([doc_for_llm sample_doc1, doc_for_llm sample_doc3],
           [source_of sample_doc1, source_of sample_doc3], 1980)"
    by (simp add: pack_context_def sample_eval)
  have "324 + 23 + RESERVED_QUERY_TOKENS < max_tokens_for_llm_effective None"
    by (simp add: sample_eval)
  with h budget_respected_per_block [OF h] show ?thesis by blast
qed

text \<open>
  C1 as the specification states it fails. With a query of 4000 words and no passage, the
  base count alone (8824 with one token per character) is above the budget of 4096, so no
  context can bring the total below it. And with two passages that fill the budget up to
  one token, the text that is sent, the blocks joined by a newline, has one token more
  than the blocks counted one by one, and reaches the budget.
\<close>

theorem budget_respected_counterexample:
  "pack_context sample_services (llm_model_to_use None) (max_tokens_for_llm_effective None)
     long_query [] = Inr ([], [], 8824)
   \<and> num_tokens_from_string sample_services (join [CHR 0x0A] []) (llm_model_to_use None) = Inr 0
   \<and> num_tokens_from_string sample_services (system_prompt_template @ long_query)
        (llm_model_to_use None) = Inr 8324
   \<and> \<not> 0 + (8324 + RESERVED_QUERY_TOKENS) < max_tokens_for_llm_effective None
   \<and> pack_context sample_services (llm_model_to_use None) (max_tokens_for_llm_effective None)
        [] [tight_doc1, tight_doc2]
      = Inr ([doc_for_llm tight_doc1, doc_for_llm tight_doc2],
             [source_of tight_doc1, source_of tight_doc2], 4095)
   \<and> num_tokens_from_string sample_services
        (join [CHR 0x0A] [doc_for_llm tight_doc1, doc_for_llm tight_doc2])
        (llm_model_to_use None) = Inr 3272
   \<and> num_tokens_from_string sample_services (system_prompt_template @ [])
        (llm_model_to_use None) = Inr 324
   \<and> \<not> 3272 + (324 + RESERVED_QUERY_TOKENS) < max_tokens_for_llm_effective None"
  by (simp add: pack_context_def sample_eval)

text \<open>
  C2 (strict greedy-prefix admission). The admitted passages are exactly the first \<open>k\<close>
  of the list: each of them passed the budget check against the running total. When
  \<open>k\<close> is not the length of the list, the passage at rank \<open>k\<close> failed the check and
  the loop stopped there: no passage of rank \<open>k\<close> or more is among the admitted blocks
  or the citations, whatever its size.
\<close>

theorem greedy_prefix_admission:
  assumes "pack_context svc m b q docs = Inr (parts, srcs, cur)"
  shows "\<exists>n k ts. num_tokens_from_string svc (system_prompt_template @ q) m = Inr n
     \<and> k \<le> length docs \<and> length ts = k
     \<and> parts = map doc_for_llm (take k docs)
     \<and> srcs = map source_of (take k docs)
     \<and> (\<forall>i<k. num_tokens_from_string svc (doc_for_llm (docs ! i)) m = Inr (ts ! i)
            \<and> n + RESERVED_QUERY_TOKENS + sum_list (take i ts) + ts ! i < b)
     \<and> (k < length docs \<longrightarrow>
          (\<exists>t. num_tokens_from_string svc (doc_for_llm (docs ! k)) m = Inr t
             \<and> \<not> n + RESERVED_QUERY_TOKENS + sum_list ts + t < b))"
proof -
  from pack_context_result [OF assms] obtain n k ts where r:
    "num_tokens_from_string svc (system_prompt_template @ q) m = Inr n"
    "k \<le> length docs"
    "parts = map doc_for_llm (take k docs)"
    "srcs = map source_of (take k docs)"
    "map (\<lambda>d. num_tokens_from_string svc (doc_for_llm d) m) (take k docs) = map Inr ts"
    "cur = n + RESERVED_QUERY_TOKENS + sum_list ts"
    "0 < k \<longrightarrow> cur < b"
    "k < length docs \<longrightarrow>
       (\<exists>t. num_tokens_from_string svc (doc_for_llm (docs ! k)) m = Inr t \<and> \<not> cur + t < b)"
    by blast
  from r(5) have "length (take k docs) = length ts"
    by (metis length_map)
  with r(2) have len: "length ts = k" by simp
  have each: "num_tokens_from_string svc (doc_for_llm (docs ! i)) m = Inr (ts ! i)
      \<and> n + RESERVED_QUERY_TOKENS + sum_list (take i ts) + ts ! i < b" if "i < k" for i
  proof -
    from that r(2) len have
      "map (\<lambda>d. num_tokens_from_string svc (doc_for_llm d) m) (take k docs) ! i
         = num_tokens_from_string svc (doc_for_llm (docs ! i)) m"
      by simp
    moreover from that len have "map Inr ts ! i = (Inr (ts ! i) :: exn + nat)" by simp
    ultimately have tok: "num_tokens_from_string svc (doc_for_llm (docs ! i)) m = Inr (ts ! i)"
      using r(5) by simp
    from that len have "ts = take i ts @ ts ! i # drop (Suc i) ts"
      by (simp add: id_take_nth_drop)
    then have "sum_list ts = sum_list (take i ts) + ts ! i + sum_list (drop (Suc i) ts)"
      by (metis add.assoc sum_list.Cons sum_list.append)
    moreover from that r(7) have "cur < b" by simp
    ultimately have "n + RESERVED_QUERY_TOKENS + sum_list (take i ts) + ts ! i < b"
      using r(6) by simp
    with tok show ?thesis by simp
  qed
  from r(1,2,3,4,6,8) len each show ?thesis by blast
qed

theorem greedy_prefix_admission_witness:
  "pack_context sample_services (llm_model_to_use None) (max_tokens_for_llm_effective None)
     sample_query [sample_doc1, sample_doc2, sample_doc3]
   = Inr ([doc_for_llm sample_doc1], [source_of sample_doc1], 1911)
   \<and> num_tokens_from_string sample_services (doc_for_llm sample_doc2) (llm_model_to_use None)
       = Inr 3045
   \<and> num_tokens_from_string sample_services (doc_for_llm sample_doc3) (llm_model_to_use None)
       = Inr 69
   \<and> 1911 + 69 < max_tokens_for_llm_effective None
   \<and> (\<exists>n k ts. num_tokens_from_string sample_services (system_prompt_template @ sample_query)
                  (llm_model_to_use None) = Inr n
        \<and> k \<le> length [sample_doc1, sample_doc2, sample_doc3] \<and> length ts = k
        \<and> [doc_for_llm sample_doc1] = map doc_for_llm (take k [sample_doc1, sample_doc2, sample_doc3])
        \<and> [source_of sample_doc1] = map source_of (take k [sample_doc1, sample_doc2, sample_doc3])
        \<and> (\<forall>i<k. num_tokens_from_string sample_services
                     (doc_for_llm ([sample_doc1, sample_doc2, sample_doc3] ! i))
                     (llm_model_to_use None) = Inr (ts ! i)
               \<and> n + RESERVED_QUERY_TOKENS + sum_list (take i ts) + ts ! i
                   < max_tokens_for_llm_effective None)
        \<and> (k < length [sample_doc1, sample_doc2, sample_doc3] \<longrightarrow>
             (\<exists>t. num_tokens_from_string sample_services
                     (doc_for_llm ([sample_doc1, sample_doc2, sample_doc3] ! k))
                     (llm_model_to_use None) = Inr t
                \<and> \<not> n + RESERVED_QUERY_TOKENS + sum_list ts + t
                      < max_tokens_for_llm_effective None)))"
proof -
  have h: "pack_context sample_services (llm_model_to_use None)
      (max_tokens_for_llm_effective None) sample_query [sample_doc1, sample_doc2, sample_doc3]
    = Inr ([doc_for_llm sample_doc1], [source_of sample_doc1], 1911)"
    by (simp add: pack_context_def sample_eval)
  have "num_tokens_from_string sample_services (doc_for_llm sample_doc2) (llm_model_to_use None)
       = Inr 3045"
    "num_tokens_from_string sample_services (doc_for_llm sample_doc3) (llm_model_to_use None)
       = Inr 69"
    "1911 + 69 < max_tokens_for_llm_effective None"
    by (simp_all add: sample_eval)
  with h greedy_prefix_admission [OF h] show ?thesis by blast
qed

text \<open>
  C3 (citation correspondence). The citations that the packer returns are the
  \<^verbatim>\<open>{title, url}\<close> dictionaries of the admitted passages, one for each block of the
  context and in the same order: the \<open>i\<close>-th citation carries the title and the url of
  the \<open>i\<close>-th admitted passage (\<^verbatim>\<open>No Title\<close> and \<^verbatim>\<open>#\<close> where the passage has
  none).
\<close>

theorem citation_correspondence:
  assumes "pack_context svc m b q docs = Inr (parts, srcs, cur)"
  shows "length srcs = length parts \<and> length parts \<le> length docs
     \<and> (\<forall>i<length parts.
           parts ! i = doc_for_llm (docs ! i)
         \<and> srcs ! i = PyDict [(''title'', PyStr (field_get (doc_title (docs ! i)) ''No Title'')),
                              (''url'', PyStr (field_get (doc_url (docs ! i)) ''#''))])"
proof -
  from pack_context_result [OF assms] obtain k where r:
    "k \<le> length docs"
    "parts = map doc_for_llm (take k docs)"
    "srcs = map source_of (take k docs)"
    by blast
  then show ?thesis by (simp add: source_of_def)
qed

theorem citation_correspondence_witness:
  "pack_context sample_services (llm_model_to_use None) (max_tokens_for_llm_effective None)
     sample_query [sample_doc1, sample_doc4, sample_doc3, sample_doc2]
   = Inr ([doc_for_llm sample_doc1, doc_for_llm sample_doc4, doc_for_llm sample_doc3],
          [source_of sample_doc1, source_of sample_doc4, source_of sample_doc3], 2035)
   \<and> length [source_of sample_doc1, source_of sample_doc4, source_of sample_doc3]
       = length [doc_for_llm sample_doc1, doc_for_llm sample_doc4, doc_for_llm sample_doc3]
   \<and> [source_of sample_doc1, source_of sample_doc4, source_of sample_doc3] ! 0
       = PyDict [(''title'', PyStr ''Week 1''), (''url'', PyStr ''https://tds.example/w1'')]
   \<and> [source_of sample_doc1, source_of sample_doc4, source_of sample_doc3] ! 1
       = PyDict [(''title'', PyStr ''No Title''), (''url'', PyStr ''#'')]
   \<and> [source_of sample_doc1, source_of sample_doc4, source_of sample_doc3] ! 2
       = PyDict [(''title'', PyStr ''Week 3''), (''url'', PyStr ''https://tds.example/w3'')]"
proof -
  have h: "pack_context sample_services (llm_model_to_use None)
      (max_tokens_for_llm_effective None) sample_query
      [sample_doc1, sample_doc4, sample_doc3, sample_doc2]
    = Inr ([doc_for_llm sample_doc1, doc_for_llm sample_doc4, doc_for_llm sample_doc3],
           [source_of sample_doc1, source_of sample_doc4, source_of sample_doc3], 2035)"
    by (simp add: pack_context_def sample_eval)
  from citation_correspondence [OF h] have a:
    "\<forall>i<3. [source_of sample_doc1, source_of sample_doc4, source_of sample_doc3] ! i
       = PyDict [(''title'', PyStr (field_get (doc_title
                   ([sample_doc1, sample_doc4, sample_doc3, sample_doc2] ! i)) ''No Title'')),
                 (''url'', PyStr (field_get (doc_url
                   ([sample_doc1, sample_doc4, sample_doc3, sample_doc2] ! i)) ''#''))]"
    by simp
  from a [rule_format, of 0] a [rule_format, of 1] a [rule_format, of 2] have
    "[source_of sample_doc1, source_of sample_doc4, source_of sample_doc3] ! 0
       = PyDict [(''title'', PyStr ''Week 1''), (''url'', PyStr ''https://tds.example/w1'')]"
    "[source_of sample_doc1, source_of sample_doc4, source_of sample_doc3] ! 1
       = PyDict [(''title'', PyStr ''No Title''), (''url'', PyStr ''#'')]"
    "[source_of sample_doc1, source_of sample_doc4, source_of sample_doc3] ! 2
       = PyDict [(''title'', PyStr ''Week 3''), (''url'', PyStr ''https://tds.example/w3'')]"
    by (simp_all add: field_get_def sample_doc1_def sample_doc3_def sample_doc4_def)
  with h show ?thesis by simp
qed

section \<open>The result of the pipeline\<close>

lemma strip_empty_iff: "strip s = [] \<longleftrightarrow> (\<forall>c\<in>set s. is_space c)"
proof -
  let ?d = "dropWhile is_space s"
  have d: "(\<forall>c\<in>set ?d. is_space c) \<longleftrightarrow> ?d = []"
  proof
    assume all: "\<forall>c\<in>set ?d. is_space c"
    show "?d = []"
    proof (rule ccontr)
      assume ne: "?d \<noteq> []"
      then have "\<not> is_space (hd ?d)" by (rule hd_dropWhile)
      moreover from ne have "hd ?d \<in> set ?d" by (rule hd_in_set)
      ultimately show False using all by blast
    qed
  next
    assume "?d = []"
    then show "\<forall>c\<in>set ?d. is_space c" by (simp only: list.set ball_empty)
  qed
  have "strip s = [] \<longleftrightarrow> dropWhile is_space (rev ?d) = []"
    by (simp only: strip_def rev_is_Nil_conv)
  also have "\<dots> \<longleftrightarrow> (\<forall>c\<in>set (rev ?d). is_space c)"
    by (rule dropWhile_eq_Nil_conv)
  also have "\<dots> \<longleftrightarrow> (\<forall>c\<in>set ?d. is_space c)"
    by (simp only: set_rev)
  also have "\<dots> \<longleftrightarrow> ?d = []" by (rule d)
  also have "\<dots> \<longleftrightarrow> (\<forall>c\<in>set s. is_space c)"
    by (rule dropWhile_eq_Nil_conv)
  finally show ?thesis .
qed

lemma call_llm_Inr:
  "call_llm svc request = Inr a \<Longrightarrow>
   \<exists>c rest. chat_create svc request = Inr (Some c # rest) \<and> a = strip c"
proof -
  assume a: "call_llm svc request = Inr a"
  then obtain choices where c: "chat_create svc request = Inr choices"
    by (cases "chat_create svc request") (simp_all add: call_llm_def)
  with a obtain content rest where l: "choices = content # rest"
    by (cases choices) (simp_all add: call_llm_def py_index_def)
  with a c obtain s where "content = Some s" "a = strip s"
    by (cases content) (simp_all add: call_llm_def py_index_def)
  with c l show ?thesis by simp
qed

text \<open>
  The return paths of \<^verbatim>\<open>generate_llm_response\<close>: it raises exactly when the packing
  raises; otherwise it returns the answer of the chat service with the packed citations,
  or the fallback result with no citation.
\<close>

lemma generate_llm_response_Inl:
  "generate_llm_response svc q docs imgs = Inl e \<longleftrightarrow>
   pack_context svc (llm_model_to_use imgs) (max_tokens_for_llm_effective imgs) q docs = Inl e"
  by (auto simp: generate_llm_response_def Let_def split: sum.splits prod.splits)

lemma generate_llm_response_Inr:
  assumes "generate_llm_response svc q docs imgs = Inr r"
  shows "\<exists>parts srcs cur.
     pack_context svc (llm_model_to_use imgs) (max_tokens_for_llm_effective imgs) q docs
       = Inr (parts, srcs, cur)
     \<and> ((\<exists>e. call_llm svc (llm_request q (join [CHR 0x0A] parts) imgs) = Inl e)
            \<and> r = answer_result llm_error_answer []
        \<or> (\<exists>a. call_llm svc (llm_request q (join [CHR 0x0A] parts) imgs) = Inr a
            \<and> r = answer_result a srcs))"
  using assms
  by (auto simp: generate_llm_response_def Let_def split: sum.splits prod.splits)

lemma generate_rag_answer_cases:
  "generate_rag_answer svc q imgs = answer_result rag_error_answer []
   \<or> generate_rag_answer svc q imgs = answer_result llm_error_answer []
   \<or> (\<exists>request c rest srcs. chat_create svc request = Inr (Some c # rest)
        \<and> generate_rag_answer svc q imgs = answer_result (strip c) srcs)"
proof (cases "rag_pipeline svc q imgs")
  case (Inl e)
  then show ?thesis by (simp add: generate_rag_answer_def)
next
  case (Inr r)
  then have out: "generate_rag_answer svc q imgs = r" by (simp add: generate_rag_answer_def)
  from Inr obtain docs where "generate_llm_response svc q docs imgs = Inr r"
    by (auto simp: rag_pipeline_def split: sum.splits)
  from generate_llm_response_Inr [OF this] obtain parts srcs where
    "(\<exists>e. call_llm svc (llm_request q (join [CHR 0x0A] parts) imgs) = Inl e)
        \<and> r = answer_result llm_error_answer []
     \<or> (\<exists>a. call_llm svc (llm_request q (join [CHR 0x0A] parts) imgs) = Inr a
        \<and> r = answer_result a srcs)"
    by blast
  then show ?thesis
  proof
    assume "(\<exists>e. call_llm svc (llm_request q (join [CHR 0x0A] parts) imgs) = Inl e)
        \<and> r = answer_result llm_error_answer []"
    with out show ?thesis by simp
  next
    assume "\<exists>a. call_llm svc (llm_request q (join [CHR 0x0A] parts) imgs) = Inr a
        \<and> r = answer_result a srcs"
    then obtain a where a: "call_llm svc (llm_request q (join [CHR 0x0A] parts) imgs) = Inr a"
      "r = answer_result a srcs" by blast
    from call_llm_Inr [OF a(1)] a(2) out show ?thesis by blast
  qed
qed

text \<open>
  C4 (orchestrator totality and fallback). \<^verbatim>\<open>generate_rag_answer\<close> is a total function
  into results: an exception of any stage is a value that it maps to a result. When the
  embedding, the retrieval or \<^verbatim>\<open>generate_llm_response\<close> raises, the result is the
  apology of the orchestrator with no source. When the chat call raises inside
  \<^verbatim>\<open>generate_llm_response\<close> (a failing service, no choice, a content that is
  \<^verbatim>\<open>None\<close>), that function's own handler gives the result: its apology, with no source.
\<close>

theorem orchestrator_fallback:
  "((get_embedding svc q = Inl e
      \<or> (get_embedding svc q = Inr v \<and> retrieve_documents svc v 7 = Inl e)
      \<or> (get_embedding svc q = Inr v \<and> retrieve_documents svc v 7 = Inr docs
           \<and> generate_llm_response svc q docs imgs = Inl e))
     \<longrightarrow> generate_rag_answer svc q imgs
           = PyDict [(''answer'', PyStr ''I'm sorry, an internal error occurred in the RAG system.''),
                     (''sources'', PyList [])])
   \<and> (get_embedding svc q = Inr v \<and> retrieve_documents svc v 7 = Inr docs
       \<and> pack_context svc (llm_model_to_use imgs) (max_tokens_for_llm_effective imgs) q docs
           = Inr (parts, srcs, cur)
       \<and> call_llm svc (llm_request q (join [CHR 0x0A] parts) imgs) = Inl e
     \<longrightarrow> generate_rag_answer svc q imgs
           = PyDict [(''answer'',
                      PyStr ''I'm sorry, I encountered an error while trying to generate a response.''),
                     (''sources'', PyList [])])"
proof (intro conjI impI)
  assume "get_embedding svc q = Inl e
      \<or> (get_embedding svc q = Inr v \<and> retrieve_documents svc v 7 = Inl e)
      \<or> (get_embedding svc q = Inr v \<and> retrieve_documents svc v 7 = Inr docs
           \<and> generate_llm_response svc q docs imgs = Inl e)"
  then have "rag_pipeline svc q imgs = Inl e"
    by (auto simp: rag_pipeline_def)
  then have "generate_rag_answer svc q imgs = answer_result rag_error_answer []"
    by (simp add: generate_rag_answer_def)
  then show "generate_rag_answer svc q imgs
      = PyDict [(''answer'', PyStr ''I'm sorry, an internal error occurred in the RAG system.''),
                (''sources'', PyList [])]"
    by (simp only: answer_result_def rag_error_answer_def)
next
  assume a: "get_embedding svc q = Inr v \<and> retrieve_documents svc v 7 = Inr docs
       \<and> pack_context svc (llm_model_to_use imgs) (max_tokens_for_llm_effective imgs) q docs
           = Inr (parts, srcs, cur)
       \<and> call_llm svc (llm_request q (join [CHR 0x0A] parts) imgs) = Inl e"
  then have "generate_llm_response svc q docs imgs = Inr (answer_result llm_error_answer [])"
    by (simp add: generate_llm_response_def)
  with a have "rag_pipeline svc q imgs = Inr (answer_result llm_error_answer [])"
    by (simp add: rag_pipeline_def)
  then have "generate_rag_answer svc q imgs = answer_result llm_error_answer []"
    by (simp add: generate_rag_answer_def)
  then show "generate_rag_answer svc q imgs
      = PyDict [(''answer'',
                 PyStr ''I'm sorry, I encountered an error while trying to generate a response.''),
                (''sources'', PyList [])]"
    by (simp only: answer_result_def llm_error_answer_def)
qed


lemma sample_retrieve:
  "index_query svc = index_query sample_services \<Longrightarrow>
   retrieve_documents svc v 7 = Inr sample_retrieved"
  by (simp add: retrieve_documents_def sample_services_def sample_matches_def
      sample_retrieved_def dict_get_def)

lemma sample_embedding:
  "embeddings_create svc = embeddings_create sample_services \<Longrightarrow>
   get_embedding svc q = Inr [1, 0, 0]"
  by (simp add: get_embedding_def sample_services_def py_index_def)

lemma sample_tokens_cong:
  "encoding_for_model svc m = Inr char_encoding \<Longrightarrow>
   num_tokens_from_string svc s m = Inr (length s)"
  by (simp add: num_tokens_from_string_def char_encoding_def)

lemma sample_retrieved_pack:
  assumes "encoding_for_model svc m = Inr char_encoding"
  shows "pack_context svc m 4096 sample_query sample_retrieved
     = Inr (map doc_for_llm sample_retrieved, map source_of sample_retrieved, 977)"
  using assms
  by (simp add: pack_context_def sample_tokens_cong length_system_prompt_template
      sample_query_def RESERVED_QUERY_TOKENS_def sample_retrieved_def doc_for_llm_def
      field_get_def)

lemma sample_sources:
  "map source_of sample_retrieved
   = [PyDict [(''title'', PyStr ''Week 1''), (''url'', PyStr ''https://tds.example/w1'')],
      PyDict [(''title'', PyStr ''No Title''), (''url'', PyStr ''#'')]]"
  by (simp add: sample_retrieved_def source_of_def field_get_def)

lemma strip_sample_reply: "strip '' Use pandas. '' = ''Use pandas.''" "strip '''' = ''''"
  by (simp_all add: strip_def is_space_def)


theorem orchestrator_fallback_witness:
  "get_embedding embedding_down sample_query = Inl (ServiceError ''down'')
   \<and> generate_rag_answer embedding_down sample_query None
       = PyDict [(''answer'', PyStr ''I'm sorry, an internal error occurred in the RAG system.''),
                 (''sources'', PyList [])]
   \<and> get_embedding index_down sample_query = Inr [1, 0, 0]
   \<and> retrieve_documents index_down [1, 0, 0] 7 = Inl (ServiceError ''down'')
   \<and> generate_rag_answer index_down sample_query None
       = PyDict [(''answer'', PyStr ''I'm sorry, an internal error occurred in the RAG system.''),
                 (''sources'', PyList [])]
   \<and> get_embedding tiktoken_without_gpt4o sample_query = Inr [1, 0, 0]
   \<and> retrieve_documents tiktoken_without_gpt4o [1, 0, 0] 7 = Inr sample_retrieved
   \<and> generate_llm_response tiktoken_without_gpt4o sample_query sample_retrieved sample_images
       = Inl KeyError
   \<and> generate_rag_answer tiktoken_without_gpt4o sample_query sample_images
       = PyDict [(''answer'', PyStr ''I'm sorry, an internal error occurred in the RAG system.''),
                 (''sources'', PyList [])]
   \<and> get_embedding chat_down sample_query = Inr [1, 0, 0]
   \<and> retrieve_documents chat_down [1, 0, 0] 7 = Inr sample_retrieved
   \<and> pack_context chat_down (llm_model_to_use None) (max_tokens_for_llm_effective None)
         sample_query sample_retrieved
       = Inr (map doc_for_llm sample_retrieved, map source_of sample_retrieved, 977)
   \<and> call_llm chat_down
         (llm_request sample_query (join [CHR 0x0A] (map doc_for_llm sample_retrieved)) None)
       = Inl (ServiceError ''timeout'')
   \<and> generate_rag_answer chat_down sample_query None
       = PyDict [(''answer'',
                  PyStr ''I'm sorry, I encountered an error while trying to generate a response.''),
                 (''sources'', PyList [])]"
proof -
  have e1: "get_embedding embedding_down sample_query = Inl (ServiceError ''down'')"
    by (simp add: get_embedding_def embedding_down_def)
  have e2: "get_embedding index_down sample_query = Inr [1, 0, 0]"
    "retrieve_documents index_down [1, 0, 0] 7 = Inl (ServiceError ''down'')"
    by (simp_all add: sample_embedding retrieve_documents_def index_down_def)
  have e3: "get_embedding tiktoken_without_gpt4o sample_query = Inr [1, 0, 0]"
    "retrieve_documents tiktoken_without_gpt4o [1, 0, 0] 7 = Inr sample_retrieved"
    "generate_llm_response tiktoken_without_gpt4o sample_query sample_retrieved sample_images
       = Inl KeyError"
    by (simp_all add: sample_embedding sample_retrieve tiktoken_without_gpt4o_def
        generate_llm_response_def pack_context_def num_tokens_from_string_def
        llm_model_to_use_def truthy_def sample_images_def LLM_MODEL_VISION_def)
  have e4: "get_embedding chat_down sample_query = Inr [1, 0, 0]"
    "retrieve_documents chat_down [1, 0, 0] 7 = Inr sample_retrieved"
    "pack_context chat_down (llm_model_to_use None) (max_tokens_for_llm_effective None)
         sample_query sample_retrieved
       = Inr (map doc_for_llm sample_retrieved, map source_of sample_retrieved, 977)"
    "call_llm chat_down
         (llm_request sample_query (join [CHR 0x0A] (map doc_for_llm sample_retrieved)) None)
       = Inl (ServiceError ''timeout'')"
    by (simp_all add: sample_embedding sample_retrieve sample_retrieved_pack budget_4096
        chat_down_def sample_services_def call_llm_def)
  note f = orchestrator_fallback [THEN conjunct1, rule_format]
  note g = orchestrator_fallback [THEN conjunct2, rule_format]
  have r1: "generate_rag_answer embedding_down sample_query None
       = PyDict [(''answer'', PyStr ''I'm sorry, an internal error occurred in the RAG system.''),
                 (''sources'', PyList [])]"
    by (rule f) (rule disjI1, rule e1)
  have r2: "generate_rag_answer index_down sample_query None
       = PyDict [(''answer'', PyStr ''I'm sorry, an internal error occurred in the RAG system.''),
                 (''sources'', PyList [])]"
    by (rule f) (rule disjI2, rule disjI1, rule conjI, rule e2, rule e2)
  have r3: "generate_rag_answer tiktoken_without_gpt4o sample_query sample_images
       = PyDict [(''answer'', PyStr ''I'm sorry, an internal error occurred in the RAG system.''),
                 (''sources'', PyList [])]"
    by (rule f) (rule disjI2, rule disjI2, intro conjI, rule e3, rule e3, rule e3)
  have r4: "generate_rag_answer chat_down sample_query None
       = PyDict [(''answer'',
                  PyStr ''I'm sorry, I encountered an error while trying to generate a response.''),
                 (''sources'', PyList [])]"
    by (rule g) (intro conjI, rule e4, rule e4, rule e4, rule e4)
  from e1 e2 e3 e4 r1 r2 r3 r4 show ?thesis by (intro conjI)
qed

lemma call_llm_reply:
  "chat_create svc request = Inr (Some c # rest) \<Longrightarrow> call_llm svc request = Inr (strip c)"
  by (simp add: call_llm_def py_index_def)

lemma call_llm_failure:
  "chat_create svc request = Inl e \<or> chat_create svc request = Inr []
     \<or> chat_create svc request = Inr (None # rest) \<Longrightarrow>
   \<exists>e'. call_llm svc request = Inl e'"
  by (auto simp: call_llm_def py_index_def)

lemma rag_answer_packed:
  assumes "get_embedding svc q = Inr v" and "retrieve_documents svc v 7 = Inr docs"
    and "pack_context svc (llm_model_to_use imgs) (max_tokens_for_llm_effective imgs) q docs
      = Inr (parts, srcs, cur)"
  shows "generate_rag_answer svc q imgs
     = (case call_llm svc (llm_request q (join [CHR 0x0A] parts) imgs) of
          Inr llm_answer \<Rightarrow> answer_result llm_answer srcs
        | Inl e \<Rightarrow> answer_result llm_error_answer [])"
  using assms
  by (simp add: generate_rag_answer_def rag_pipeline_def generate_llm_response_def
      split: sum.splits)

lemma rag_answer_raised:
  assumes "get_embedding svc q = Inl e
      \<or> (get_embedding svc q = Inr v \<and> retrieve_documents svc v 7 = Inl e)
      \<or> (get_embedding svc q = Inr v \<and> retrieve_documents svc v 7 = Inr docs
           \<and> pack_context svc (llm_model_to_use imgs) (max_tokens_for_llm_effective imgs) q docs
               = Inl e)"
  shows "generate_rag_answer svc q imgs = answer_result rag_error_answer []"
proof -
  from assms have "rag_pipeline svc q imgs = Inl e"
    by (auto simp: rag_pipeline_def generate_llm_response_def)
  then show ?thesis by (simp add: generate_rag_answer_def)
qed

lemma lookup_answer: "py_lookup (answer_result a srcs) ''answer'' = Some (PyStr a)"
  by (simp add: answer_result_def)

text \<open>
  C5 (non-empty answer), as amended. The result of the pipeline always has an
  \<^verbatim>\<open>answer\<close> that is a string, path by path. When the embedding, the retrieval or the
  packing raises, it is the apology of the orchestrator. When the packing returns and the
  chat call fails (the service raises, the reply has no choice, or the content of its
  first choice is \<^verbatim>\<open>None\<close>), it is the apology of \<^verbatim>\<open>generate_llm_response\<close>. When
  the chat service replies to the request built from the packed context with a first choice
  that has a content, it is that content stripped, which is not empty exactly when the
  content has a character that is not whitespace. Both apologies are not empty.
\<close>

theorem answer_is_string:
  "(\<exists>a. py_lookup (generate_rag_answer svc q imgs) ''answer'' = Some (PyStr a))
   \<and> ((get_embedding svc q = Inl e
        \<or> (get_embedding svc q = Inr v \<and> retrieve_documents svc v 7 = Inl e)
        \<or> (get_embedding svc q = Inr v \<and> retrieve_documents svc v 7 = Inr docs
             \<and> pack_context svc (llm_model_to_use imgs) (max_tokens_for_llm_effective imgs) q docs
                 = Inl e))
       \<longrightarrow> py_lookup (generate_rag_answer svc q imgs) ''answer''
             = Some (PyStr ''I'm sorry, an internal error occurred in the RAG system.''))
   \<and> (get_embedding svc q = Inr v \<and> retrieve_documents svc v 7 = Inr docs
        \<and> pack_context svc (llm_model_to_use imgs) (max_tokens_for_llm_effective imgs) q docs
            = Inr (parts, srcs, cur)
        \<and> (chat_create svc (llm_request q (join [CHR 0x0A] parts) imgs) = Inl e
           \<or> chat_create svc (llm_request q (join [CHR 0x0A] parts) imgs) = Inr []
           \<or> chat_create svc (llm_request q (join [CHR 0x0A] parts) imgs) = Inr (None # rest))
       \<longrightarrow> py_lookup (generate_rag_answer svc q imgs) ''answer''
             = Some (PyStr ''I'm sorry, I encountered an error while trying to generate a response.''))
   \<and> (get_embedding svc q = Inr v \<and> retrieve_documents svc v 7 = Inr docs
        \<and> pack_context svc (llm_model_to_use imgs) (max_tokens_for_llm_effective imgs) q docs
            = Inr (parts, srcs, cur)
        \<and> chat_create svc (llm_request q (join [CHR 0x0A] parts) imgs) = Inr (Some c # rest)
       \<longrightarrow> py_lookup (generate_rag_answer svc q imgs) ''answer'' = Some (PyStr (strip c))
           \<and> (strip c \<noteq> [] \<longleftrightarrow> (\<exists>ch\<in>set c. \<not> is_space ch)))
   \<and> ''I'm sorry, an internal error occurred in the RAG system.'' \<noteq> []
   \<and> ''I'm sorry, I encountered an error while trying to generate a response.'' \<noteq> []"
proof (intro conjI impI)
  from generate_rag_answer_cases [of svc q imgs]
  show "\<exists>a. py_lookup (generate_rag_answer svc q imgs) ''answer'' = Some (PyStr a)"
    by (auto simp: lookup_answer)
next
  assume "get_embedding svc q = Inl e
        \<or> (get_embedding svc q = Inr v \<and> retrieve_documents svc v 7 = Inl e)
        \<or> (get_embedding svc q = Inr v \<and> retrieve_documents svc v 7 = Inr docs
             \<and> pack_context svc (llm_model_to_use imgs) (max_tokens_for_llm_effective imgs) q docs
                 = Inl e)"
  then have "generate_rag_answer svc q imgs = answer_result rag_error_answer []"
    by (rule rag_answer_raised)
  then show "py_lookup (generate_rag_answer svc q imgs) ''answer''
      = Some (PyStr ''I'm sorry, an internal error occurred in the RAG system.'')"
    by (simp only: lookup_answer rag_error_answer_def)
next
  assume a: "get_embedding svc q = Inr v \<and> retrieve_documents svc v 7 = Inr docs
        \<and> pack_context svc (llm_model_to_use imgs) (max_tokens_for_llm_effective imgs) q docs
            = Inr (parts, srcs, cur)
        \<and> (chat_create svc (llm_request q (join [CHR 0x0A] parts) imgs) = Inl e
           \<or> chat_create svc (llm_request q (join [CHR 0x0A] parts) imgs) = Inr []
           \<or> chat_create svc (llm_request q (join [CHR 0x0A] parts) imgs) = Inr (None # rest))"
  then obtain e' where "call_llm svc (llm_request q (join [CHR 0x0A] parts) imgs) = Inl e'"
    using call_llm_failure [of svc "llm_request q (join [CHR 0x0A] parts) imgs" e rest] by blast
  with a have "generate_rag_answer svc q imgs = answer_result llm_error_answer []"
    by (simp add: rag_answer_packed)
  then show "py_lookup (generate_rag_answer svc q imgs) ''answer''
      = Some (PyStr ''I'm sorry, I encountered an error while trying to generate a response.'')"
    by (simp only: lookup_answer llm_error_answer_def)
next
  assume a: "get_embedding svc q = Inr v \<and> retrieve_documents svc v 7 = Inr docs
        \<and> pack_context svc (llm_model_to_use imgs) (max_tokens_for_llm_effective imgs) q docs
            = Inr (parts, srcs, cur)
        \<and> chat_create svc (llm_request q (join [CHR 0x0A] parts) imgs) = Inr (Some c # rest)"
  then have "call_llm svc (llm_request q (join [CHR 0x0A] parts) imgs) = Inr (strip c)"
    by (simp add: call_llm_reply)
  with a have "generate_rag_answer svc q imgs = answer_result (strip c) srcs"
    by (simp add: rag_answer_packed)
  then show "py_lookup (generate_rag_answer svc q imgs) ''answer'' = Some (PyStr (strip c))"
    by (simp only: lookup_answer)
next
  show "strip c \<noteq> [] \<longleftrightarrow> (\<exists>ch\<in>set c. \<not> is_space ch)"
    by (simp only: strip_empty_iff) blast
next
  show "''I'm sorry, an internal error occurred in the RAG system.'' \<noteq> []" by simp
next
  show "''I'm sorry, I encountered an error while trying to generate a response.'' \<noteq> []"
    by simp
qed

theorem answer_is_string_witness:
  "get_embedding embedding_down sample_query = Inl (ServiceError ''down'')
   \<and> py_lookup (generate_rag_answer embedding_down sample_query None) ''answer''
       = Some (PyStr ''I'm sorry, an internal error occurred in the RAG system.'')
   \<and> chat_create chat_down
        (llm_request sample_query (join [CHR 0x0A] (map doc_for_llm sample_retrieved)) None)
       = Inl (ServiceError ''timeout'')
   \<and> py_lookup (generate_rag_answer chat_down sample_query None) ''answer''
       = Some (PyStr ''I'm sorry, I encountered an error while trying to generate a response.'')
   \<and> chat_create sample_services
        (llm_request sample_query (join [CHR 0x0A] (map doc_for_llm sample_retrieved)) None)
       = Inr [Some '' Use pandas. '']
   \<and> py_lookup (generate_rag_answer sample_services sample_query None) ''answer''
       = Some (PyStr ''Use pandas.'')
   \<and> ''Use pandas.'' \<noteq> []"
proof -
  have p: "pack_context svc (llm_model_to_use None) (max_tokens_for_llm_effective None)
         sample_query sample_retrieved
       = Inr (map doc_for_llm sample_retrieved, map source_of sample_retrieved, 977)"
    if "encoding_for_model svc = encoding_for_model sample_services" for svc
    using that by (simp add: sample_retrieved_pack budget_4096 sample_services_def)
  have e1: "get_embedding embedding_down sample_query = Inl (ServiceError ''down'')"
    by (simp add: get_embedding_def embedding_down_def)
  have c2: "chat_create chat_down
        (llm_request sample_query (join [CHR 0x0A] (map doc_for_llm sample_retrieved)) None)
       = Inl (ServiceError ''timeout'')"
    by (simp add: chat_down_def)
  have c3: "chat_create sample_services
        (llm_request sample_query (join [CHR 0x0A] (map doc_for_llm sample_retrieved)) None)
       = Inr [Some '' Use pandas. '']"
    by (simp add: sample_services_def)
  have g2: "get_embedding chat_down sample_query = Inr [1, 0, 0]"
    "retrieve_documents chat_down [1, 0, 0] 7 = Inr sample_retrieved"
    by (simp_all add: sample_embedding sample_retrieve chat_down_def)
  have g3: "get_embedding sample_services sample_query = Inr [1, 0, 0]"
    "retrieve_documents sample_services [1, 0, 0] 7 = Inr sample_retrieved"
    by (simp_all add: sample_embedding sample_retrieve)
  have r1: "py_lookup (generate_rag_answer embedding_down sample_query None) ''answer''
       = Some (PyStr ''I'm sorry, an internal error occurred in the RAG system.'')"
    by (rule answer_is_string [THEN conjunct2, THEN conjunct1, THEN mp])
      (rule disjI1, rule e1)
  have r2: "py_lookup (generate_rag_answer chat_down sample_query None) ''answer''
       = Some (PyStr ''I'm sorry, I encountered an error while trying to generate a response.'')"
    by (rule answer_is_string [THEN conjunct2, THEN conjunct2, THEN conjunct1, THEN mp])
      (intro conjI, rule g2, rule g2, rule p, simp add: chat_down_def, rule disjI1, rule c2)
  have "py_lookup (generate_rag_answer sample_services sample_query None) ''answer''
       = Some (PyStr (strip '' Use pandas. ''))"
    by (rule answer_is_string [THEN conjunct2, THEN conjunct2, THEN conjunct2, THEN conjunct1,
          THEN mp, THEN conjunct1])
      (intro conjI, rule g3, rule g3, rule p, rule refl, rule c3)
  then have r3: "py_lookup (generate_rag_answer sample_services sample_query None) ''answer''
       = Some (PyStr ''Use pandas.'')"
    by (simp only: strip_sample_reply)
  from e1 r1 c2 r2 c3 r3 show ?thesis by (intro conjI) simp_all
qed

text \<open>
  C5 as the specification states it fails: when the chat service replies with an empty
  content, the pipeline succeeds and returns the empty string as its answer, together with
  the two citations.
\<close>

theorem nonempty_answer_counterexample:
  "generate_rag_answer chat_empty_reply sample_query None
     = PyDict [(''answer'', PyStr ''''),
               (''sources'',
                PyList [PyDict [(''title'', PyStr ''Week 1''),
                                (''url'', PyStr ''https://tds.example/w1'')],
                        PyDict [(''title'', PyStr ''No Title''), (''url'', PyStr ''#'')]])]
   \<and> py_lookup (generate_rag_answer chat_empty_reply sample_query None) ''answer''
       = Some (PyStr '''')"
proof -
  have "pack_context chat_empty_reply (llm_model_to_use None) (max_tokens_for_llm_effective None)
         sample_query sample_retrieved
       = Inr (map doc_for_llm sample_retrieved, map source_of sample_retrieved, 977)"
    by (simp add: sample_retrieved_pack budget_4096 chat_empty_reply_def sample_services_def)
  moreover have "call_llm chat_empty_reply request = Inr ''''" for request
    by (simp add: call_llm_def chat_empty_reply_def py_index_def strip_sample_reply)
  ultimately have
    "generate_llm_response chat_empty_reply sample_query sample_retrieved None
       = Inr (answer_result '''' (map source_of sample_retrieved))"
    by (simp add: generate_llm_response_def)
  moreover have "get_embedding chat_empty_reply sample_query = Inr [1, 0, 0]"
    "retrieve_documents chat_empty_reply [1, 0, 0] 7 = Inr sample_retrieved"
    by (simp_all add: sample_embedding sample_retrieve chat_empty_reply_def)
  ultimately have "generate_rag_answer chat_empty_reply sample_query None
      = answer_result '''' (map source_of sample_retrieved)"
    by (simp add: generate_rag_answer_def rag_pipeline_def)
  then show ?thesis
    by (simp add: answer_result_def sample_sources)
qed

text \<open>
  C6 (sources always present). Every result that \<^verbatim>\<open>generate_llm_response\<close> returns and
  every result of \<^verbatim>\<open>generate_rag_answer\<close> is a dictionary whose \<^verbatim>\<open>sources\<close> entry is
  a list: the citations of the packer when the chat call succeeded, the empty list on each
  failure path.
\<close>

theorem sources_always_present:
  "(generate_llm_response svc q docs imgs = Inr r \<longrightarrow>
      (\<exists>cs. py_lookup r ''sources'' = Some (PyList cs)
         \<and> (cs = [] \<or> (\<exists>parts cur.
               pack_context svc (llm_model_to_use imgs) (max_tokens_for_llm_effective imgs) q docs
                 = Inr (parts, cs, cur)))))
   \<and> (\<exists>cs. py_lookup (generate_rag_answer svc q imgs) ''sources'' = Some (PyList cs))"
proof (intro conjI impI)
  assume "generate_llm_response svc q docs imgs = Inr r"
  from generate_llm_response_Inr [OF this]
  show "\<exists>cs. py_lookup r ''sources'' = Some (PyList cs)
         \<and> (cs = [] \<or> (\<exists>parts cur.
               pack_context svc (llm_model_to_use imgs) (max_tokens_for_llm_effective imgs) q docs
                 = Inr (parts, cs, cur)))"
    by (auto simp: answer_result_def)
next
  from generate_rag_answer_cases [of svc q imgs]
  show "\<exists>cs. py_lookup (generate_rag_answer svc q imgs) ''sources'' = Some (PyList cs)"
    by (auto simp: answer_result_def)
qed

theorem sources_always_present_witness:
  "generate_llm_response sample_services sample_query sample_retrieved None
     = Inr (PyDict [(''answer'', PyStr ''Use pandas.''),
                    (''sources'',
                     PyList [PyDict [(''title'', PyStr ''Week 1''),
                                     (''url'', PyStr ''https://tds.example/w1'')],
                             PyDict [(''title'', PyStr ''No Title''), (''url'', PyStr ''#'')]])])
   \<and> (\<exists>cs. py_lookup
              (PyDict [(''answer'', PyStr ''Use pandas.''),
                       (''sources'',
                        PyList [PyDict [(''title'', PyStr ''Week 1''),
                                        (''url'', PyStr ''https://tds.example/w1'')],
                                PyDict [(''title'', PyStr ''No Title''), (''url'', PyStr ''#'')]])])
              ''sources'' = Some (PyList cs))
   \<and> generate_llm_response chat_down sample_query sample_retrieved None
       = Inr (PyDict [(''answer'',
                       PyStr ''I'm sorry, I encountered an error while trying to generate a response.''),
                      (''sources'', PyList [])])"
proof -
  have p: "pack_context svc (llm_model_to_use None) (max_tokens_for_llm_effective None)
         sample_query sample_retrieved
       = Inr (map doc_for_llm sample_retrieved, map source_of sample_retrieved, 977)"
    if "encoding_for_model svc = encoding_for_model sample_services" for svc
    using that by (simp add: sample_retrieved_pack budget_4096 sample_services_def)
  have "call_llm sample_services request = Inr ''Use pandas.''" for request
    by (simp add: call_llm_def sample_services_def py_index_def strip_sample_reply)
  with p [of sample_services] have h:
    "generate_llm_response sample_services sample_query sample_retrieved None
     = Inr (PyDict [(''answer'', PyStr ''Use pandas.''),
                    (''sources'',
                     PyList [PyDict [(''title'', PyStr ''Week 1''),
                                     (''url'', PyStr ''https://tds.example/w1'')],
                             PyDict [(''title'', PyStr ''No Title''), (''url'', PyStr ''#'')]])])"
    by (simp add: generate_llm_response_def answer_result_def sample_sources)
  have "call_llm chat_down request = Inl (ServiceError ''timeout'')" for request
    by (simp add: call_llm_def chat_down_def)
  with p [of chat_down] have d:
    "generate_llm_response chat_down sample_query sample_retrieved None
       = Inr (PyDict [(''answer'',
                       PyStr ''I'm sorry, I encountered an error while trying to generate a response.''),
                      (''sources'', PyList [])])"
    by (simp add: generate_llm_response_def answer_result_def chat_down_def llm_error_answer_def)
  from sources_always_present [THEN conjunct1, rule_format, OF h] have
    "\<exists>cs. py_lookup
              (PyDict [(''answer'', PyStr ''Use pandas.''),
                       (''sources'',
                        PyList [PyDict [(''title'', PyStr ''Week 1''),
                                        (''url'', PyStr ''https://tds.example/w1'')],
                                PyDict [(''title'', PyStr ''No Title''), (''url'', PyStr ''#'')]])])
              ''sources'' = Some (PyList cs)"
    by blast
  with h d show ?thesis by (intro conjI)
qed

section \<open>Model, budget and the empty passage list\<close>

text \<open>
  The tokenizer enters the packing only through the token counts for the model name it is
  called with.
\<close>

lemma num_tokens_cong:
  "encoding_for_model svc m = encoding_for_model svc' m' \<Longrightarrow>
   num_tokens_from_string svc s m = num_tokens_from_string svc' s m'"
  by (simp add: num_tokens_from_string_def)

lemma pack_loop_cong:
  assumes "encoding_for_model svc m = encoding_for_model svc' m'"
  shows "pack_loop svc m b docs st = pack_loop svc' m' b docs st"
proof (induction docs arbitrary: st)
  case Nil
  show ?case by simp
next
  case (Cons d docs)
  obtain parts srcs cur where st: "st = (parts, srcs, cur)" by (cases st)
  show ?case
    unfolding st pack_loop.simps num_tokens_cong [OF assms, of "doc_for_llm d"]
    by (simp add: Cons.IH split: sum.splits)
qed

lemma pack_context_cong:
  assumes "encoding_for_model svc m = encoding_for_model svc' m'"
  shows "pack_context svc m b q docs = pack_context svc' m' b q docs"
  unfolding pack_context_def num_tokens_cong [OF assms, of "system_prompt_template @ q"]
  by (simp add: pack_loop_cong [OF assms] split: sum.splits)

lemma llm_response_packed:
  assumes "pack_context svc (llm_model_to_use imgs) (max_tokens_for_llm_effective imgs) q docs
      = Inr (parts, srcs, cur)"
  shows "generate_llm_response svc q docs imgs
     = Inr (case chat_create svc (llm_request q (join [CHR 0x0A] parts) imgs) of
              Inr (Some c # rest) \<Rightarrow> answer_result (strip c) srcs
            | _ \<Rightarrow> answer_result llm_error_answer [])"
  using assms
  by (simp add: generate_llm_response_def call_llm_def py_index_def
      split: sum.splits list.splits option.splits)

lemma llm_response_tokenizer_raises:
  assumes "encoding_for_model svc (llm_model_to_use imgs) = Inl e"
  shows "generate_llm_response svc q docs imgs = Inl e"
  using assms
  by (simp add: generate_llm_response_def pack_context_def num_tokens_from_string_def)

text \<open>
  C7 (model selection). The model is \<^verbatim>\<open>gpt-4o\<close> exactly when the image list is present
  and not empty, and \<^verbatim>\<open>gpt-3.5-turbo\<close> otherwise. The function uses it: it asks
  tiktoken for the encoding of that model, so that it raises when tiktoken does not know
  it; and when the packing returns, its result is decided by the reply of the chat service
  to the one request built from the packed context, whose model is the selected one. It
  uses no other model: services that fail for every other model give the same result.
\<close>

theorem model_selection:
  "llm_model_to_use imgs
     = (if imgs \<noteq> None \<and> imgs \<noteq> Some [] then ''gpt-4o'' else ''gpt-3.5-turbo'')
   \<and> req_model (llm_request q ctx imgs) = llm_model_to_use imgs
   \<and> generate_llm_response
        (svc\<lparr>encoding_for_model :=
               (\<lambda>model_name. if model_name = llm_model_to_use imgs
                  then encoding_for_model svc model_name else Inl KeyError),
             chat_create :=
               (\<lambda>request. if req_model request = llm_model_to_use imgs
                  then chat_create svc request else Inl (ServiceError ''model''))\<rparr>)
        q docs imgs
      = generate_llm_response svc q docs imgs
   \<and> (encoding_for_model svc (llm_model_to_use imgs) = Inl e
       \<longrightarrow> generate_llm_response svc q docs imgs = Inl e)
   \<and> (pack_context svc (llm_model_to_use imgs) (max_tokens_for_llm_effective imgs) q docs
         = Inr (parts, srcs, cur)
       \<longrightarrow> req_model (llm_request q (join [CHR 0x0A] parts) imgs) = llm_model_to_use imgs
           \<and> generate_llm_response svc q docs imgs
             = Inr (case chat_create svc (llm_request q (join [CHR 0x0A] parts) imgs) of
                      Inr (Some c # rest) \<Rightarrow> answer_result (strip c) srcs
                    | _ \<Rightarrow> answer_result llm_error_answer []))"
proof (intro conjI impI)
  show "llm_model_to_use imgs
     = (if imgs \<noteq> None \<and> imgs \<noteq> Some [] then ''gpt-4o'' else ''gpt-3.5-turbo'')"
    by (cases imgs)
      (simp_all add: llm_model_to_use_def truthy_def LLM_MODEL_VISION_def LLM_MODEL_TEXT_ONLY_def)
  show m: "req_model (llm_request q ctx imgs) = llm_model_to_use imgs" for ctx
    by (simp add: llm_request_def)
  let ?svc = "svc\<lparr>encoding_for_model :=
               (\<lambda>model_name. if model_name = llm_model_to_use imgs
                  then encoding_for_model svc model_name else Inl KeyError),
             chat_create :=
               (\<lambda>request. if req_model request = llm_model_to_use imgs
                  then chat_create svc request else Inl (ServiceError ''model''))\<rparr>"
  have "encoding_for_model ?svc (llm_model_to_use imgs)
      = encoding_for_model svc (llm_model_to_use imgs)"
    by simp
  then have p: "pack_context ?svc (llm_model_to_use imgs) b q docs
      = pack_context svc (llm_model_to_use imgs) b q docs" for b
    by (rule pack_context_cong)
  have c: "call_llm ?svc (llm_request q ctx imgs) = call_llm svc (llm_request q ctx imgs)" for ctx
    by (simp add: call_llm_def m)
  show "generate_llm_response ?svc q docs imgs = generate_llm_response svc q docs imgs"
    unfolding generate_llm_response_def p c ..
next
  assume "encoding_for_model svc (llm_model_to_use imgs) = Inl e"
  then show "generate_llm_response svc q docs imgs = Inl e"
    by (rule llm_response_tokenizer_raises)
next
  assume packed: "pack_context svc (llm_model_to_use imgs) (max_tokens_for_llm_effective imgs)
      q docs = Inr (parts, srcs, cur)"
  show "req_model (llm_request q (join [CHR 0x0A] parts) imgs) = llm_model_to_use imgs"
    by (simp add: llm_request_def)
  from packed show "generate_llm_response svc q docs imgs
             = Inr (case chat_create svc (llm_request q (join [CHR 0x0A] parts) imgs) of
                      Inr (Some c # rest) \<Rightarrow> answer_result (strip c) srcs
                    | _ \<Rightarrow> answer_result llm_error_answer [])"
    by (rule llm_response_packed)
qed

theorem model_selection_witness:
  "encoding_for_model tiktoken_without_gpt4o (llm_model_to_use sample_images) = Inl KeyError
   \<and> generate_llm_response tiktoken_without_gpt4o sample_query sample_retrieved sample_images
       = Inl KeyError
   \<and> generate_llm_response tiktoken_without_gpt4o sample_query sample_retrieved None
       = Inr (answer_result ''Use pandas.'' (map source_of sample_retrieved))
   \<and> req_model (llm_request sample_query (join [CHR 0x0A] (map doc_for_llm sample_retrieved))
        sample_images) = ''gpt-4o''
   \<and> generate_llm_response chat_echo_model sample_query sample_retrieved sample_images
       = Inr (answer_result ''gpt-4o'' (map source_of sample_retrieved))
   \<and> generate_llm_response chat_echo_model sample_query sample_retrieved None
       = Inr (answer_result ''gpt-3.5-turbo'' (map source_of sample_retrieved))
   \<and> generate_llm_response chat_echo_model sample_query sample_retrieved (Some [])
       = Inr (answer_result ''gpt-3.5-turbo'' (map source_of sample_retrieved))"
proof -
  have model: "llm_model_to_use sample_images = ''gpt-4o''"
    "llm_model_to_use None = ''gpt-3.5-turbo''" "llm_model_to_use (Some []) = ''gpt-3.5-turbo''"
    by (simp_all add: llm_model_to_use_def truthy_def sample_images_def LLM_MODEL_VISION_def
        LLM_MODEL_TEXT_ONLY_def)
  have s: "strip ''gpt-4o'' = ''gpt-4o''" "strip ''gpt-3.5-turbo'' = ''gpt-3.5-turbo''"
    by (simp_all add: strip_def is_space_def)
  have h: "encoding_for_model tiktoken_without_gpt4o (llm_model_to_use sample_images)
      = Inl KeyError"
    by (simp add: model tiktoken_without_gpt4o_def)
  have p: "pack_context svc (llm_model_to_use imgs) (max_tokens_for_llm_effective imgs)
         sample_query sample_retrieved
       = Inr (map doc_for_llm sample_retrieved, map source_of sample_retrieved, 977)"
    if "encoding_for_model svc (llm_model_to_use imgs) = Inr char_encoding" for svc imgs
    using that by (simp add: sample_retrieved_pack budget_4096)
  have p1: "pack_context tiktoken_without_gpt4o (llm_model_to_use None)
         (max_tokens_for_llm_effective None) sample_query sample_retrieved
       = Inr (map doc_for_llm sample_retrieved, map source_of sample_retrieved, 977)"
    by (rule p) (simp add: model tiktoken_without_gpt4o_def)
  have p2: "pack_context chat_echo_model (llm_model_to_use imgs)
         (max_tokens_for_llm_effective imgs) sample_query sample_retrieved
       = Inr (map doc_for_llm sample_retrieved, map source_of sample_retrieved, 977)" for imgs
    by (rule p) (simp add: chat_echo_model_def sample_services_def)
  note tok = model_selection [THEN conjunct2, THEN conjunct2, THEN conjunct2, THEN conjunct1,
      THEN mp]
  note chat = model_selection [THEN conjunct2, THEN conjunct2, THEN conjunct2, THEN conjunct2,
      THEN mp]
  have r1: "generate_llm_response tiktoken_without_gpt4o sample_query sample_retrieved
      sample_images = Inl KeyError"
    by (rule tok) (rule h)
  from chat [OF p1] have r2:
    "generate_llm_response tiktoken_without_gpt4o sample_query sample_retrieved None
       = Inr (answer_result ''Use pandas.'' (map source_of sample_retrieved))"
    by (simp add: tiktoken_without_gpt4o_def sample_services_def strip_sample_reply)
  from chat [OF p2 [of sample_images]] have r3:
    "req_model (llm_request sample_query (join [CHR 0x0A] (map doc_for_llm sample_retrieved))
        sample_images) = ''gpt-4o''"
    "generate_llm_response chat_echo_model sample_query sample_retrieved sample_images
       = Inr (answer_result ''gpt-4o'' (map source_of sample_retrieved))"
    by (simp_all add: chat_echo_model_def llm_request_def model s)
  from chat [OF p2 [of None]] have r4:
    "generate_llm_response chat_echo_model sample_query sample_retrieved None
       = Inr (answer_result ''gpt-3.5-turbo'' (map source_of sample_retrieved))"
    by (simp add: chat_echo_model_def llm_request_def model s)
  from chat [OF p2 [of "Some []"]] have r5:
    "generate_llm_response chat_echo_model sample_query sample_retrieved (Some [])
       = Inr (answer_result ''gpt-3.5-turbo'' (map source_of sample_retrieved))"
    by (simp add: chat_echo_model_def llm_request_def model s)
  from h r1 r2 r3 r4 r5 show ?thesis by (intro conjI)
qed

text \<open>
  C9 (constant effective budget). Both branches of the budget selection are
  \<^verbatim>\<open>MAX_TOKENS_FOR_LLM_VISION\<close>, 4096, so the packing of
  \<^verbatim>\<open>generate_llm_response\<close> is the packing with the budget 4096 and the model chosen for
  counting; with a tokenizer that has one encoding for both models, the packing is the same
  for every two image lists.
\<close>

theorem constant_effective_budget:
  "max_tokens_for_llm_effective imgs = MAX_TOKENS_FOR_LLM_VISION
   \<and> MAX_TOKENS_FOR_LLM_VISION = 4096
   \<and> pack_context svc (llm_model_to_use imgs) (max_tokens_for_llm_effective imgs) q docs
       = pack_context svc (llm_model_to_use imgs) 4096 q docs
   \<and> (encoding_for_model svc LLM_MODEL_VISION = encoding_for_model svc LLM_MODEL_TEXT_ONLY \<longrightarrow>
        pack_context svc (llm_model_to_use imgs) (max_tokens_for_llm_effective imgs) q docs
        = pack_context svc (llm_model_to_use imgs') (max_tokens_for_llm_effective imgs') q docs)"
proof (intro conjI impI)
  show "max_tokens_for_llm_effective imgs = MAX_TOKENS_FOR_LLM_VISION"
    by (simp add: max_tokens_for_llm_effective_def)
  show "MAX_TOKENS_FOR_LLM_VISION = 4096"
    by (simp add: MAX_TOKENS_FOR_LLM_VISION_def)
  show "pack_context svc (llm_model_to_use imgs) (max_tokens_for_llm_effective imgs) q docs
       = pack_context svc (llm_model_to_use imgs) 4096 q docs"
    by (simp only: budget_4096)
  assume "encoding_for_model svc LLM_MODEL_VISION = encoding_for_model svc LLM_MODEL_TEXT_ONLY"
  then have "encoding_for_model svc (llm_model_to_use imgs)
      = encoding_for_model svc (llm_model_to_use imgs')"
    by (simp add: llm_model_to_use_def)
  then have "pack_context svc (llm_model_to_use imgs) 4096 q docs
      = pack_context svc (llm_model_to_use imgs') 4096 q docs"
    by (rule pack_context_cong)
  then show "pack_context svc (llm_model_to_use imgs) (max_tokens_for_llm_effective imgs) q docs
        = pack_context svc (llm_model_to_use imgs') (max_tokens_for_llm_effective imgs') q docs"
    by (simp only: budget_4096)
qed

theorem constant_effective_budget_witness:
  "encoding_for_model sample_services LLM_MODEL_VISION
     = encoding_for_model sample_services LLM_MODEL_TEXT_ONLY
   \<and> llm_model_to_use None = ''gpt-3.5-turbo'' \<and> llm_model_to_use sample_images = ''gpt-4o''
   \<and> pack_context sample_services (llm_model_to_use None) (max_tokens_for_llm_effective None)
        sample_query [sample_doc1, sample_doc2, sample_doc3]
      = pack_context sample_services (llm_model_to_use sample_images)
          (max_tokens_for_llm_effective sample_images)
          sample_query [sample_doc1, sample_doc2, sample_doc3]
   \<and> pack_context sample_services (llm_model_to_use sample_images)
        (max_tokens_for_llm_effective sample_images)
        sample_query [sample_doc1, sample_doc2, sample_doc3]
      = Inr ([doc_for_llm sample_doc1], [source_of sample_doc1], 1911)"
proof -
  have h: "encoding_for_model sample_services LLM_MODEL_VISION
     = encoding_for_model sample_services LLM_MODEL_TEXT_ONLY"
    by (simp add: sample_services_def)
  have "llm_model_to_use None = ''gpt-3.5-turbo''" "llm_model_to_use sample_images = ''gpt-4o''"
    by (simp_all add: llm_model_to_use_def truthy_def sample_images_def LLM_MODEL_VISION_def
        LLM_MODEL_TEXT_ONLY_def)
  moreover have "pack_context sample_services (llm_model_to_use sample_images)
        (max_tokens_for_llm_effective sample_images)
        sample_query [sample_doc1, sample_doc2, sample_doc3]
      = Inr ([doc_for_llm sample_doc1], [source_of sample_doc1], 1911)"
    by (simp add: pack_context_def sample_eval)
  moreover note
    constant_effective_budget [THEN conjunct2, THEN conjunct2, THEN conjunct2, rule_format, OF h,
      of None sample_query "[sample_doc1, sample_doc2, sample_doc3]" sample_images]
  ultimately show ?thesis using h by (intro conjI)
qed

text \<open>
  C8 (empty passage list), as amended. When the token count of system prompt plus query
  succeeds, an empty passage list gives no block, no citation and no error; the context is
  the empty string, and the chat service is called with the system prompt alone as the
  system message and the query (and the images, if any) as the user message. The result
  is the answer of that call with no source, or the fallback result when the call fails.
\<close>

theorem empty_passages:
  assumes "num_tokens_from_string svc (system_prompt_template @ q) (llm_model_to_use imgs) = Inr n"
  shows "pack_context svc (llm_model_to_use imgs) (max_tokens_for_llm_effective imgs) q []
       = Inr ([], [], n + RESERVED_QUERY_TOKENS)
     \<and> join [CHR 0x0A] [] = ''''
     \<and> req_messages (llm_request q (join [CHR 0x0A] []) imgs)
         = PyList [PyDict [(''role'', PyStr ''system''),
                           (''content'', PyStr system_prompt_template)],
                   PyDict [(''role'', PyStr ''user''),
                           (''content'',
                            PyList (PyDict [(''type'', PyStr ''text''), (''text'', PyStr q)]
                                    # (case imgs of None \<Rightarrow> [] | Some l \<Rightarrow> map image_part l)))]]
     \<and> generate_llm_response svc q [] imgs
         = Inr (case call_llm svc (llm_request q (join [CHR 0x0A] []) imgs) of
                  Inr llm_answer \<Rightarrow> answer_result llm_answer []
                | Inl e \<Rightarrow> answer_result llm_error_answer [])"
proof -
  from assms have p: "pack_context svc (llm_model_to_use imgs) (max_tokens_for_llm_effective imgs)
      q [] = Inr ([], [], n + RESERVED_QUERY_TOKENS)"
    by (simp add: pack_context_def)
  have "generate_llm_response svc q [] imgs
         = Inr (case call_llm svc (llm_request q (join [CHR 0x0A] []) imgs) of
                  Inr llm_answer \<Rightarrow> answer_result llm_answer []
                | Inl e \<Rightarrow> answer_result llm_error_answer [])"
    unfolding generate_llm_response_def p by (simp split: sum.splits)
  with p show ?thesis
    by (simp add: llm_request_def user_content_def)
qed

theorem empty_passages_witness:
  "num_tokens_from_string sample_services (system_prompt_template @ sample_query)
     (llm_model_to_use None) = Inr 347
   \<and> pack_context sample_services (llm_model_to_use None) (max_tokens_for_llm_effective None)
       sample_query [] = Inr ([], [], 347 + RESERVED_QUERY_TOKENS)
   \<and> generate_llm_response sample_services sample_query [] None
       = Inr (PyDict [(''answer'', PyStr ''Use pandas.''), (''sources'', PyList [])])"
proof -
  have h: "num_tokens_from_string sample_services (system_prompt_template @ sample_query)
     (llm_model_to_use None) = Inr 347"
    by (simp add: sample_eval)
  have "call_llm sample_services request = Inr ''Use pandas.''" for request
    by (simp add: call_llm_def sample_services_def py_index_def strip_sample_reply)
  with h empty_passages [OF h] show ?thesis
    by (simp add: answer_result_def)
qed

lemma has_substring_suffix: "has_substring (xs @ p) p"
proof (induction xs)
  case Nil
  show ?case by (cases p) (simp_all add: startswith_def)
next
  case (Cons x xs)
  then show ?case by simp
qed

text \<open>
  C8 as the specification states it fails: when the query is the special token
  \<^verbatim>\<open><|endoftext|>\<close>, tiktoken refuses the text of system prompt plus query with
  ValueError before the loop; with the empty passage list the function raises and the chat
  service is not called.
\<close>

theorem empty_passages_counterexample:
  "num_tokens_from_string tiktoken_special_tokens (system_prompt_template @ ''<|endoftext|>'')
     (llm_model_to_use None) = Inl ValueError
   \<and> pack_context tiktoken_special_tokens (llm_model_to_use None)
       (max_tokens_for_llm_effective None) ''<|endoftext|>'' [] = Inl ValueError
   \<and> generate_llm_response tiktoken_special_tokens ''<|endoftext|>'' [] None = Inl ValueError"
proof -
  have "num_tokens_from_string tiktoken_special_tokens (system_prompt_template @ ''<|endoftext|>'')
     m = Inl ValueError" for m
    by (simp add: num_tokens_from_string_def tiktoken_special_tokens_def
        special_token_encoding_def has_substring_suffix)
  then show ?thesis
    by (simp add: generate_llm_response_def pack_context_def)
qed

section \<open>The endpoint\<close>

lemma after_first_comma_split:
  assumes "CHR '','' \<in> set s"
  shows "s = takeWhile (\<lambda>c. c \<noteq> CHR '','') s @ '','' @ after_first_comma s"
    and "CHR '','' \<notin> set (takeWhile (\<lambda>c. c \<noteq> CHR '','') s)"
proof -
  let ?d = "dropWhile (\<lambda>c. c \<noteq> CHR '','') s"
  from assms have ne: "?d \<noteq> []" by (simp add: dropWhile_eq_Nil_conv)
  then have "\<not> hd ?d \<noteq> CHR '',''" by (rule hd_dropWhile)
  with ne have "?d = '','' @ tl ?d" by (cases ?d) simp_all
  then have "takeWhile (\<lambda>c. c \<noteq> CHR '','') s @ ?d
      = takeWhile (\<lambda>c. c \<noteq> CHR '','') s @ '','' @ after_first_comma s"
    by (simp only: after_first_comma_def)
  then show "s = takeWhile (\<lambda>c. c \<noteq> CHR '','') s @ '','' @ after_first_comma s"
    by (simp only: takeWhile_dropWhile_id)
  show "CHR '','' \<notin> set (takeWhile (\<lambda>c. c \<noteq> CHR '','') s)"
    by (auto dest: set_takeWhileD)
qed

lemma strip_data_url_eq:
  "strip_data_url img =
     (if startswith img ''data:image/'' \<and> CHR '','' \<notin> set img then Inl IndexError
      else Inr (forwarded_image img))"
  by (simp add: strip_data_url_def forwarded_image_def after_first_comma_def split_comma_1_def
      py_index_def)

lemma strip_data_urls_ok:
  "\<forall>img\<in>set imgs. startswith img ''data:image/'' \<longrightarrow> CHR '','' \<in> set img \<Longrightarrow>
   strip_data_urls imgs = Inr (map forwarded_image imgs)"
  by (induction imgs) (simp_all add: strip_data_url_eq)

lemma strip_data_urls_error:
  "\<exists>img\<in>set imgs. startswith img ''data:image/'' \<and> CHR '','' \<notin> set img \<Longrightarrow>
   strip_data_urls imgs = Inl IndexError"
proof (induction imgs)
  case Nil
  then show ?case by simp
next
  case (Cons img imgs)
  show ?case
  proof (cases "startswith img ''data:image/'' \<and> CHR '','' \<notin> set img")
    case True
    then show ?thesis by (simp add: strip_data_url_eq)
  next
    case False
    with Cons.prems have "\<exists>img\<in>set imgs. startswith img ''data:image/'' \<and> CHR '','' \<notin> set img"
      by auto
    then have "strip_data_urls imgs = Inl IndexError" by (rule Cons.IH)
    with False show ?thesis by (simp add: strip_data_url_eq)
  qed
qed

text \<open>
  C10 (data-URL stripping), as amended. When every submitted image that starts with
  \<^verbatim>\<open>data:image/\<close> contains a comma, the endpoint calls the pipeline with the list of
  the forwarded images, in the order of the submitted ones: the substring after the first
  comma for an image that starts with \<^verbatim>\<open>data:image/\<close>, the image itself otherwise.
  When some submitted image starts with \<^verbatim>\<open>data:image/\<close> and contains no comma, the
  endpoint forwards nothing and raises its HTTP error 500.
\<close>

theorem data_url_stripping:
  "((\<forall>img\<in>set imgs. startswith img ''data:image/'' \<longrightarrow> CHR '','' \<in> set img) \<longrightarrow>
      image_list_for_rag \<lparr>question = q, image_data = Some imgs\<rparr>
        = Inr (map forwarded_image imgs)
      \<and> ask_question svc \<lparr>question = q, image_data = Some imgs\<rparr>
        = (case build_response (generate_rag_answer svc q (Some (map forwarded_image imgs))) of
             Inl e \<Rightarrow> Inl http_500
           | Inr response \<Rightarrow> Inr response))
   \<and> ((\<exists>img\<in>set imgs. startswith img ''data:image/'' \<and> CHR '','' \<notin> set img) \<longrightarrow>
      image_list_for_rag \<lparr>question = q, image_data = Some imgs\<rparr> = Inl IndexError
      \<and> ask_question svc \<lparr>question = q, image_data = Some imgs\<rparr> = Inl http_500)
   \<and> image_list_for_rag \<lparr>question = q, image_data = None\<rparr> = Inr []
   \<and> (\<forall>img. forwarded_image img
          = (if startswith img ''data:image/'' then after_first_comma img else img)
        \<and> (CHR '','' \<in> set img \<longrightarrow>
             img = takeWhile (\<lambda>c. c \<noteq> CHR '','') img @ '','' @ after_first_comma img
             \<and> CHR '','' \<notin> set (takeWhile (\<lambda>c. c \<noteq> CHR '','') img)))"
proof (intro conjI impI allI)
  assume ok: "\<forall>img\<in>set imgs. startswith img ''data:image/'' \<longrightarrow> CHR '','' \<in> set img"
  show l: "image_list_for_rag \<lparr>question = q, image_data = Some imgs\<rparr>
        = Inr (map forwarded_image imgs)"
    using strip_data_urls_ok [OF ok]
    by (cases "imgs = []") (simp_all add: image_list_for_rag_def truthy_def)
  show "ask_question svc \<lparr>question = q, image_data = Some imgs\<rparr>
        = (case build_response (generate_rag_answer svc q (Some (map forwarded_image imgs))) of
             Inl e \<Rightarrow> Inl http_500
           | Inr response \<Rightarrow> Inr response)"
    unfolding ask_question_def l by simp
next
  assume bad: "\<exists>img\<in>set imgs. startswith img ''data:image/'' \<and> CHR '','' \<notin> set img"
  then have "imgs \<noteq> []" by auto
  then show l: "image_list_for_rag \<lparr>question = q, image_data = Some imgs\<rparr> = Inl IndexError"
    by (simp add: image_list_for_rag_def truthy_def strip_data_urls_error [OF bad])
  show "ask_question svc \<lparr>question = q, image_data = Some imgs\<rparr> = Inl http_500"
    unfolding ask_question_def l by simp
next
  show "image_list_for_rag \<lparr>question = q, image_data = None\<rparr> = Inr []"
    by (simp add: image_list_for_rag_def truthy_def)
next
  fix img
  show "forwarded_image img
      = (if startswith img ''data:image/'' then after_first_comma img else img)"
    by (rule forwarded_image_def)
next
  fix img
  assume "CHR '','' \<in> set img"
  then show "img = takeWhile (\<lambda>c. c \<noteq> CHR '','') img @ '','' @ after_first_comma img"
    by (rule after_first_comma_split)
next
  fix img
  assume "CHR '','' \<in> set img"
  then show "CHR '','' \<notin> set (takeWhile (\<lambda>c. c \<noteq> CHR '','') img)"
    by (rule after_first_comma_split)
qed


lemma sample_rag_answer:
  "generate_rag_answer sample_services sample_query imgs
     = answer_result ''Use pandas.'' (map source_of sample_retrieved)"
proof -
  have "pack_context sample_services (llm_model_to_use imgs) (max_tokens_for_llm_effective imgs)
         sample_query sample_retrieved
       = Inr (map doc_for_llm sample_retrieved, map source_of sample_retrieved, 977)"
    by (simp add: sample_retrieved_pack budget_4096 sample_services_def)
  moreover have "call_llm sample_services request = Inr ''Use pandas.''" for request
    by (simp add: call_llm_def sample_services_def py_index_def strip_sample_reply)
  ultimately have
    "generate_llm_response sample_services sample_query sample_retrieved imgs
       = Inr (answer_result ''Use pandas.'' (map source_of sample_retrieved))"
    by (simp add: generate_llm_response_def)
  then show ?thesis
    by (simp add: generate_rag_answer_def rag_pipeline_def sample_embedding sample_retrieve)
qed

lemma sample_build_response:
  "build_response (answer_result ''Use pandas.'' (map source_of sample_retrieved))
     = Inr \<lparr>answer = ''Use pandas.'',
            sources = [\<lparr>title = ''Week 1'', url = ''https://tds.example/w1''\<rparr>,
                       \<lparr>title = ''No Title'', url = ''#''\<rparr>]\<rparr>"
  by (simp add: build_response_def py_subscript_def answer_result_def sample_sources
      RAGResponse_def)

theorem data_url_stripping_witness:
  "map forwarded_image sample_submitted = [''aGVsbG8='', ''aGVsbG8='', ''y,z'']
   \<and> image_list_for_rag \<lparr>question = sample_query, image_data = Some sample_submitted\<rparr>
       = Inr [''aGVsbG8='', ''aGVsbG8='', ''y,z'']
   \<and> ask_question sample_services \<lparr>question = sample_query, image_data = Some sample_submitted\<rparr>
       = Inr \<lparr>answer = ''Use pandas.'',
              sources = [\<lparr>title = ''Week 1'', url = ''https://tds.example/w1''\<rparr>,
                         \<lparr>title = ''No Title'', url = ''#''\<rparr>]\<rparr>
   \<and> image_list_for_rag \<lparr>question = sample_query, image_data = Some [''data:image/jpeg'']\<rparr>
       = Inl IndexError
   \<and> ask_question sample_services
         \<lparr>question = sample_query, image_data = Some [''data:image/jpeg'']\<rparr>
       = Inl http_500"
proof -
  have ok: "\<forall>img\<in>set sample_submitted. startswith img ''data:image/'' \<longrightarrow> CHR '','' \<in> set img"
    by (simp add: sample_submitted_def startswith_def)
  have bad: "\<exists>img\<in>set [''data:image/jpeg'']. startswith img ''data:image/'' \<and> CHR '','' \<notin> set img"
    by (simp add: startswith_def)
  have f: "map forwarded_image sample_submitted = [''aGVsbG8='', ''aGVsbG8='', ''y,z'']"
    by (simp add: sample_submitted_def forwarded_image_def after_first_comma_def startswith_def)
  note a = data_url_stripping [of sample_submitted sample_query sample_services,
      THEN conjunct1, THEN mp, OF ok]
  note b = data_url_stripping [of "[''data:image/jpeg'']" sample_query sample_services,
      THEN conjunct2, THEN conjunct1, THEN mp, OF bad]
  from a have
    "image_list_for_rag \<lparr>question = sample_query, image_data = Some sample_submitted\<rparr>
       = Inr [''aGVsbG8='', ''aGVsbG8='', ''y,z'']"
    by (simp only: f)
  moreover from a have
    "ask_question sample_services \<lparr>question = sample_query, image_data = Some sample_submitted\<rparr>
       = Inr \<lparr>answer = ''Use pandas.'',
              sources = [\<lparr>title = ''Week 1'', url = ''https://tds.example/w1''\<rparr>,
                         \<lparr>title = ''No Title'', url = ''#''\<rparr>]\<rparr>"
    by (simp add: sample_rag_answer sample_build_response)
  ultimately show ?thesis using f b by (intro conjI) simp_all
qed

text \<open>
  C10 as the specification states it fails: the second submitted image starts with
  \<^verbatim>\<open>data:image/\<close> and has no comma, so there is no substring after a comma to forward;
  the subscript raises IndexError, no image is forwarded and the endpoint raises its HTTP
  error 500.
\<close>

theorem data_url_stripping_counterexample:
  "sample_malformed = [''aGVsbG8='', ''data:image/png;base64'']
   \<and> startswith ''data:image/png;base64'' ''data:image/''
   \<and> CHR '','' \<notin> set ''data:image/png;base64''
   \<and> image_list_for_rag \<lparr>question = sample_query, image_data = Some sample_malformed\<rparr>
       = Inl IndexError
   \<and> ask_question sample_services \<lparr>question = sample_query, image_data = Some sample_malformed\<rparr>
       = Inl (HTTPException 500 ''An error occurred while processing your request.'')"
  by (simp add: sample_malformed_def startswith_def image_list_for_rag_def truthy_def
      strip_data_url_def split_comma_1_def py_index_def ask_question_def http_500_def)

end
